theory Spec2Isabelle
  imports Main
begin

section \<open>Data model\<close>

text \<open>
  The dialogue phases named by the call state. The webhook only ever assigns
  \<open>collecting-datetime\<close>, \<open>collecting-reason\<close> and \<open>completed\<close>; \<open>greeting\<close> is the
  phase of a newly created state.
\<close>

datatype phase = Greeting | CollectingName | CollectingDatetime | CollectingReason | Completed

text \<open>
  The per-call state. Optional fields of the TypeScript object are \<open>option\<close> values,
  \<open>None\<close> standing for \<open>undefined\<close>.
\<close>

record CallState =
  callId :: string
  phase :: phase
  customerName :: "string option"
  appointmentDateTime :: "string option"
  reason :: "string option"
  contactNumber :: "string option"

text \<open>
  The values a parsed JSON text can hold. A number is kept as the text JavaScript
  prints for it (\<open>String(n)\<close>: \<open>42\<close>, \<open>1.5\<close>, \<open>1e+21\<close>; both zeros print as \<open>0\<close>),
  an object as its members in the order of the text.
\<close>

datatype json =
    JNull
  | JBool bool
  | JNumber string
  | JString string
  | JArray "json list"
  | JObject "(string \<times> json) list"

text \<open>
  A stored booking, and the fields a caller of \<open>addAppointment\<close> supplies. The
  TypeScript type gives every field the type \<open>string\<close>, but the appointment endpoint
  passes on what it finds in the request body without a check, so at run time the five
  fields a caller supplies hold any value; the webhook and the simulator supply
  strings (\<open>JString\<close>). The identifier and the creation time come from the store.
\<close>

record Appointment =
  appt_id :: string
  appt_customerName :: json
  appt_appointmentDateTime :: json
  appt_reason :: json
  appt_contactNumber :: json
  appt_callSummary :: json
  appt_createdAt :: string

record AppointmentInput =
  in_customerName :: json
  in_appointmentDateTime :: json
  in_contactNumber :: json
  in_reason :: json
  in_callSummary :: json

text \<open>
  The server process holds the two module-level collections: the call states keyed by
  call identifier and the appointments in order of creation.
\<close>

record server =
  callStates :: "string \<rightharpoonup> CallState"
  appointments :: "Appointment list"

text \<open>
  What a request draws from its environment: the identifier \<open>crypto.randomUUID()\<close>
  returns when the form has no \<open>CallSid\<close>, the identifier and creation time the
  appointment store gives a new record, and the server's current time (a \<open>Date\<close>,
  type \<open>'t\<close>) as the date parser reads it when it is called.
\<close>

record 't runtime =
  randomUUID :: string
  newAppointmentId :: string
  nowISO :: string
  clock :: 't

text \<open>
  The module \<open>@/lib/dateParser\<close> is not part of the available sources. The handlers
  take it as a parameter. \<open>parseDateTime(text)\<close> resolves the text against the time at
  which it is called, so the model passes it the current time of the calling side and
  the text; it returns a \<open>Date\<close> (type \<open>'t\<close>) or \<open>null\<close> (\<open>None\<close>). \<open>toISOString\<close> is the
  method of \<open>Date\<close> the handlers call on the result, and \<open>formatHumanReadable\<close>
  renders for display the value it is handed.
\<close>

record 't dateParser =
  parseDateTime :: "'t \<Rightarrow> string \<Rightarrow> 't option"
  toISOString :: "'t \<Rightarrow> string"
  formatHumanReadable :: "json \<Rightarrow> string"

section \<open>JavaScript strings and truthiness\<close>

text \<open>
  A character of a string is a code unit below 256. Of these
  \<open>String.prototype.trim\<close> removes tab, line feed, vertical tab, form feed, carriage
  return, space and the no-break space (U+00A0).
\<close>

definition is_space :: "char \<Rightarrow> bool" where
  "is_space c =
     (let n = (of_char c :: nat) in (9 \<le> n \<and> n \<le> 13) \<or> n = 32 \<or> n = 160)"

definition trim :: "string \<Rightarrow> string" where
  "trim s = rev (dropWhile is_space (rev (dropWhile is_space s)))"

text \<open>An optional string is truthy when it is defined and not empty.\<close>

definition truthy :: "string option \<Rightarrow> bool" where
  "truthy v = (case v of None \<Rightarrow> False | Some s \<Rightarrow> s \<noteq> [])"

definition join :: "string \<Rightarrow> string list \<Rightarrow> string" where
  "join sep xs = (case xs of [] \<Rightarrow> [] | y # ys \<Rightarrow> foldl (\<lambda>acc x. acc @ sep @ x) y ys)"

text \<open>
  The string a template literal makes of a value; \<open>None\<close> when the conversion throws a
  \<open>TypeError\<close>. A string stands for itself. An array is the texts of its elements
  joined by commas, \<open>null\<close> elements giving the empty text. An object parsed from JSON
  has no callable member, so one with a member named \<open>toString\<close> cannot be converted
  (its own \<open>toString\<close> hides the inherited one, and \<open>valueOf\<close> yields no primitive);
  any other object prints as \<open>[object Object]\<close>.
\<close>

fun to_text :: "json \<Rightarrow> string option"
  and element_texts :: "json list \<Rightarrow> string list option" where
  "to_text JNull = Some ''null''"
| "to_text (JBool b) = Some (if b then ''true'' else ''false'')"
| "to_text (JNumber t) = Some t"
| "to_text (JString s) = Some s"
| "to_text (JArray xs) = map_option (join '','') (element_texts xs)"
| "to_text (JObject members) =
     (if ''toString'' \<in> set (map fst members) then None else Some ''[object Object]'')"
| "element_texts [] = Some []"
| "element_texts (x # xs) =
     (case (if x = JNull then Some [] else to_text x) of
        None \<Rightarrow> None
      | Some t \<Rightarrow> (case element_texts xs of None \<Rightarrow> None | Some ts \<Rightarrow> Some (t # ts)))"

text \<open>A value is falsy when it is \<open>null\<close>, \<open>false\<close>, zero or the empty string.\<close>

fun js_truthy :: "json \<Rightarrow> bool" where
  "js_truthy JNull = False"
| "js_truthy (JBool b) = b"
| "js_truthy (JNumber t) = (t \<noteq> ''0'')"
| "js_truthy (JString s) = (s \<noteq> [])"
| "js_truthy (JArray xs) = True"
| "js_truthy (JObject members) = True"

text \<open>
  Reading a field of a parsed body, for the field names of an appointment: of two
  members with the same name the later one counts, and a value that is not an object
  has none of these fields (\<open>None\<close> is \<open>undefined\<close>). \<open>v ?? d\<close> is \<open>d\<close> when \<open>v\<close> is
  \<open>undefined\<close> or \<open>null\<close>.
\<close>

fun payload_field :: "json \<Rightarrow> string \<Rightarrow> json option" where
  "payload_field (JObject members) k = map_of (rev members) k"
| "payload_field v k = None"

fun nullish :: "json option \<Rightarrow> bool" where
  "nullish None = True"
| "nullish (Some v) = (v = JNull)"

definition coalesce :: "json option \<Rightarrow> json \<Rightarrow> json" where
  "coalesce v d = (if nullish v then d else the v)"

section \<open>The stores\<close>

text \<open>
  Modelled from the spec: the module \<open>@/lib/callStateStore\<close> (\<open>getCallState\<close>,
  \<open>saveCallState\<close>, \<open>clearCallState\<close>) is missing from the sources. The spec gives
  its contract: get creates the state with phase greeting and no contact number when
  the identifier is absent, save is an upsert by identifier, clear removes the entry.
  The store hands out the state as a value; only \<open>saveCallState\<close> writes it back.
\<close>

definition freshCallState :: "string \<Rightarrow> CallState" where
  "freshCallState cid =
     \<lparr>callId = cid, phase = Greeting, customerName = None, appointmentDateTime = None,
      reason = None, contactNumber = None\<rparr>"

definition getCallState :: "(string \<rightharpoonup> CallState) \<Rightarrow> string \<Rightarrow> CallState \<times> (string \<rightharpoonup> CallState)" where
  "getCallState store cid =
     (case store cid of
        Some s \<Rightarrow> (s, store)
      | None \<Rightarrow> (freshCallState cid, store(cid \<mapsto> freshCallState cid)))"

definition saveCallState :: "(string \<rightharpoonup> CallState) \<Rightarrow> CallState \<Rightarrow> (string \<rightharpoonup> CallState)" where
  "saveCallState store s = store(callId s \<mapsto> s)"

definition clearCallState :: "(string \<rightharpoonup> CallState) \<Rightarrow> string \<Rightarrow> (string \<rightharpoonup> CallState)" where
  "clearCallState store cid = store(cid := None)"

text \<open>
  Modelled from the spec: the module \<open>@/lib/appointmentsStore\<close> (\<open>addAppointment\<close>,
  \<open>listAppointments\<close>) is missing from the sources. The spec describes an append-only
  collection whose records get an identifier and a creation time when they are
  created, listed newest first.
\<close>

definition addAppointment :: "'t runtime \<Rightarrow> Appointment list \<Rightarrow> AppointmentInput \<Rightarrow> Appointment \<times> Appointment list" where
  "addAppointment rt store inp =
     (let appointment =
            \<lparr>appt_id = newAppointmentId rt,
             appt_customerName = in_customerName inp,
             appt_appointmentDateTime = in_appointmentDateTime inp,
             appt_reason = in_reason inp,
             appt_contactNumber = in_contactNumber inp,
             appt_callSummary = in_callSummary inp,
             appt_createdAt = nowISO rt\<rparr>
      in (appointment, store @ [appointment]))"

definition listAppointments :: "Appointment list \<Rightarrow> Appointment list" where
  "listAppointments store = rev store"

section \<open>The telephony webhook\<close>

text \<open>
  A form field is a string or a file (\<open>FormDataEntryValue\<close>). The request carries the
  \<open>step\<close> query parameter, the origin of its URL and the four form fields the handler
  reads; \<open>None\<close> is a field that is not there.
\<close>

datatype FormDataEntryValue = StringEntry string | FileEntry

record request =
  step_param :: "string option"
  origin :: string
  form_CallSid :: "string option"
  form_From :: "string option"
  form_SpeechResult :: "FormDataEntryValue option"
  form_Digits :: "FormDataEntryValue option"

text \<open>
  The voice markup of a reply: a \<open>Gather\<close> that speaks a prompt and posts the
  caller's answer to the given step, or a \<open>Say\<close> followed by a hang-up.
\<close>

datatype twiml = Gather string string string | Say string

record response =
  status :: nat
  contentType :: string
  body :: twiml

definition xmlResponse :: "twiml \<Rightarrow> response" where
  "xmlResponse b = \<lparr>status = 200, contentType = ''text/xml'', body = b\<rparr>"

definition gatherPrompt :: "string \<Rightarrow> string \<Rightarrow> string \<Rightarrow> string list option \<Rightarrow> string" where
  \<open>gatherPrompt prompt step orig speechHints =
     (let hintsAttribute =
            (case speechHints of
               Some hs \<Rightarrow> if length hs > 0 then '' speechHints="'' @ join '', '' hs @ ''"'' else ''''
             | None \<Rightarrow> '''');
          actionUrl = orig @ ''/api/twilio/voice?step='' @ step
      in ''<?xml version="1.0" encoding="UTF-8"?>'' @ [CHR 0x0A] @
         ''<Response>'' @ [CHR 0x0A] @
         ''  <Gather input="speech dtmf" method="POST" action="'' @ actionUrl @
           ''" speechTimeout="auto"'' @ hintsAttribute @ ''>'' @ [CHR 0x0A] @
         ''    <Say>'' @ prompt @ ''</Say>'' @ [CHR 0x0A] @
         ''  </Gather>'' @ [CHR 0x0A] @
         ''  <Say>I did not catch that.</Say>'' @ [CHR 0x0A] @
         ''  <Redirect method="POST">'' @ actionUrl @ ''</Redirect>'' @ [CHR 0x0A] @
         ''</Response>'')\<close>

definition sayMessage :: "string \<Rightarrow> string" where
  \<open>sayMessage message =
     ''<?xml version="1.0" encoding="UTF-8"?>'' @ [CHR 0x0A] @
     ''<Response>'' @ [CHR 0x0A] @
     ''  <Say>'' @ message @ ''</Say>'' @ [CHR 0x0A] @
     ''  <Hangup />'' @ [CHR 0x0A] @
     ''</Response>''\<close>

text \<open>The text of a reply: the handler never passes speech hints.\<close>

fun xml_of :: "twiml \<Rightarrow> string" where
  "xml_of (Gather prompt step orig) = gatherPrompt prompt step orig None"
| "xml_of (Say message) = sayMessage message"

definition ensureSpeechResult :: "FormDataEntryValue option \<Rightarrow> string option" where
  "ensureSpeechResult v =
     (case v of
        Some (StringEntry s) \<Rightarrow> if length (trim s) > 0 then Some (trim s) else None
      | _ \<Rightarrow> None)"

text \<open>
  What the handler reads off a request before it looks at the call state: the step
  (\<open>init\<close> when the query parameter is absent), the call identifier (a random one
  when the form has none) and the caller's utterance (the transcribed speech, or else
  the dialled digits).
\<close>

definition step_of :: "request \<Rightarrow> string" where
  "step_of req = (case step_param req of Some s \<Rightarrow> s | None \<Rightarrow> ''init'')"

definition callSid_of :: "'t runtime \<Rightarrow> request \<Rightarrow> string" where
  "callSid_of rt req = (case form_CallSid req of Some c \<Rightarrow> c | None \<Rightarrow> randomUUID rt)"

definition speechResult_of :: "request \<Rightarrow> string option" where
  "speechResult_of req =
     (case ensureSpeechResult (form_SpeechResult req) of
        Some v \<Rightarrow> Some v
      | None \<Rightarrow> ensureSpeechResult (form_Digits req))"

text \<open>
  The handler of POST requests. It returns the reply and the server's collections as
  the request leaves them. The branch taken depends on the \<open>step\<close> query parameter
  alone; the phase of the loaded state is written, never read.
\<close>

definition POST :: "'t dateParser \<Rightarrow> 't runtime \<Rightarrow> request \<Rightarrow> server \<Rightarrow> response \<times> server" where
  "POST dp rt req srv =
     (let step = step_of req;
          callSid = callSid_of rt req;
          callerNumber = form_From req;
          speechResult = speechResult_of req;
          loaded = fst (getCallState (callStates srv) callSid);
          store = snd (getCallState (callStates srv) callSid);
          state = (if truthy callerNumber then loaded\<lparr>contactNumber := callerNumber\<rparr> else loaded)
      in
        if step = ''init'' then
          (xmlResponse
             (Gather
                ''Hello! You have reached the Horizon Clinic virtual scheduling assistant. May I have your full name?''
                ''name'' (origin req)),
           srv\<lparr>callStates := saveCallState store state\<rparr>)
        else if step = ''name'' then
          (if \<not> truthy speechResult then
             (xmlResponse
                (Gather ''I did not hear a name. Could you please tell me your full name?''
                   ''name'' (origin req)),
              srv\<lparr>callStates := store\<rparr>)
           else
             (let state = state\<lparr>customerName := speechResult, phase := CollectingDatetime\<rparr>
              in (xmlResponse
                    (Gather
                       (''Thanks '' @ the (customerName state) @
                        ''. What day and time would you like to book the appointment for?'')
                       ''datetime'' (origin req)),
                  srv\<lparr>callStates := saveCallState store state\<rparr>)))
        else if step = ''datetime'' then
          (if \<not> truthy speechResult then
             (xmlResponse
                (Gather
                   ''I didn't catch the appointment time. Please share the day and time you'd prefer.''
                   ''datetime'' (origin req)),
              srv\<lparr>callStates := store\<rparr>)
           else
             (case parseDateTime dp (clock rt) (the speechResult) of
                None \<Rightarrow>
                  (xmlResponse
                     (Gather
                        ''I'm sorry, I couldn't understand that date. Please state something like Friday at 2 PM or June fifth at 9 in the morning.''
                        ''datetime'' (origin req)),
                   srv\<lparr>callStates := store\<rparr>)
              | Some parsed \<Rightarrow>
                  (let state = state\<lparr>appointmentDateTime := Some (toISOString dp parsed),
                                     phase := CollectingReason\<rparr>
                   in (xmlResponse
                         (Gather
                            ''Great. What is the reason for your visit so I can let the practitioner prepare?''
                            ''reason'' (origin req)),
                       srv\<lparr>callStates := saveCallState store state\<rparr>))))
        else if step = ''reason'' then
          (if \<not> truthy speechResult then
             (xmlResponse
                (Gather ''Could you quickly describe the reason for your appointment?''
                   ''reason'' (origin req)),
              srv\<lparr>callStates := store\<rparr>)
           else
             (let state = state\<lparr>reason := speechResult, phase := Completed\<rparr>;
                  store = saveCallState store state
              in if \<not> truthy (customerName state) \<or> \<not> truthy (appointmentDateTime state)
                    \<or> \<not> truthy (reason state) then
                   (xmlResponse
                      (Say
                         ''It seems I am missing some information to complete the booking. Please try again later or reach out to our reception team.''),
                    srv\<lparr>callStates := store\<rparr>)
                 else
                   (let added =
                          addAppointment rt (appointments srv)
                            \<lparr>in_customerName = JString (the (customerName state)),
                             in_appointmentDateTime = JString (the (appointmentDateTime state)),
                             in_contactNumber =
                               JString
                                 (case contactNumber state of Some n \<Rightarrow> n | None \<Rightarrow> ''Unknown''),
                             in_reason = JString (the (reason state)),
                             in_callSummary =
                               JString
                                 (''AI assistant booked for '' @ the (customerName state) @
                                  '' to discuss '' @ the (reason state) @ ''.'')\<rparr>;
                        appointment = fst added;
                        store = clearCallState store callSid;
                        friendlyDate =
                          formatHumanReadable dp (appt_appointmentDateTime appointment)
                    in (xmlResponse
                          (Say
                             (''Thanks '' @ the (to_text (appt_customerName appointment)) @
                              ''. I have scheduled your appointment for '' @ friendlyDate @
                              ''. We look forward to seeing you then.'')),
                        srv\<lparr>callStates := store, appointments := snd added\<rparr>))))
        else
          (xmlResponse
             (Say ''I'm sorry, something went wrong while handling your request. Please try again later.''),
           srv\<lparr>callStates := store\<rparr>))"

section \<open>The appointment endpoint\<close>

text \<open>
  \<open>request.json()\<close> either rejects (with an \<open>Error\<close> carrying a message, or with some
  other value) or yields the parsed body, which can be any JSON value. The handler
  casts it to \<open>Partial<Appointment>\<close> without a check, so the body need not be an
  object and its fields need not be strings.
\<close>

datatype thrown = Error string | NonError

datatype parsed_body = Rejects thrown | Parsed json

datatype api_body = AppointmentCreated Appointment | ErrorMessage string

record api_response =
  api_status :: nat
  api_body :: api_body

text \<open>The answer of the handler's \<open>catch\<close> block to what was thrown.\<close>

definition caught :: "thrown \<Rightarrow> api_response" where
  "caught e =
     \<lparr>api_status = 400,
      api_body = ErrorMessage
        (case e of Error m \<Rightarrow> m | NonError \<Rightarrow> ''Unable to create appointment'')\<rparr>"

text \<open>The message of the \<open>TypeError\<close> that Node throws when a template literal cannot
  convert a value.\<close>

definition cannot_convert :: string where
  "cannot_convert = ''Cannot convert object to primitive value''"

text \<open>
  The summary the handler passes on: the one in the body, or else the template with
  the customer name (or \<open>client\<close>), whose conversion may throw.
\<close>

definition summary_of :: "json \<Rightarrow> json option" where
  "summary_of payload =
     (if \<not> nullish (payload_field payload ''callSummary'')
      then payload_field payload ''callSummary''
      else map_option (\<lambda>name. JString (''Conversation booked for '' @ name @ ''.''))
             (to_text (coalesce (payload_field payload ''customerName'') (JString ''client''))))"

definition appointments_POST :: "'t runtime \<Rightarrow> parsed_body \<Rightarrow> server \<Rightarrow> api_response \<times> server" where
  "appointments_POST rt b srv =
     (case b of
        Rejects e \<Rightarrow> (caught e, srv)
      | Parsed payload \<Rightarrow>
          if \<not> js_truthy payload then
            (\<lparr>api_status = 400, api_body = ErrorMessage ''Request body missing''\<rparr>, srv)
          else
            (case summary_of payload of
               None \<Rightarrow> (caught (Error cannot_convert), srv)
             | Some callSummary \<Rightarrow>
                 (let added =
                        addAppointment rt (appointments srv)
                          \<lparr>in_customerName =
                             coalesce (payload_field payload ''customerName'') (JString []),
                           in_appointmentDateTime =
                             coalesce (payload_field payload ''appointmentDateTime'') (JString []),
                           in_contactNumber =
                             coalesce (payload_field payload ''contactNumber'')
                               (JString ''Unknown''),
                           in_reason = coalesce (payload_field payload ''reason'') (JString []),
                           in_callSummary = callSummary\<rparr>
                  in (\<lparr>api_status = 201, api_body = AppointmentCreated (fst added)\<rparr>,
                      srv\<lparr>appointments := snd added\<rparr>))))"

definition appointments_GET :: "server \<Rightarrow> Appointment list" where
  "appointments_GET srv = listAppointments (appointments srv)"

section \<open>The simulator\<close>

text \<open>
  The state of the \<open>CallAgent\<close> component: one field per \<open>useState\<close> hook. A
  transcript entry is kept as its speaker and text (its identifier and time stamp are
  display data).
\<close>

record AppointmentForm =
  f_name :: "string option"
  f_requestedSlot :: "string option"
  f_reason :: "string option"
  f_phoneNumber :: "string option"

datatype speaker = Agent | Caller

record CallAgent =
  ui_appointments :: "Appointment list"
  transcript :: "(speaker \<times> string) list"
  callActive :: bool
  callerNumber :: string
  currentStepIdx :: int
  pendingResponse :: string
  form :: AppointmentForm
  callCompleted :: bool
  isSubmitting :: bool
  ui_error :: "string option"

text \<open>
  What a submission draws from its environment: the browser's current time as the
  date parser reads it, the text of \<open>new Date().toISOString()\<close> in the browser, whether
  each of the two \<open>fetch\<close> calls gets its response, and what the server draws when it
  handles the POST.
\<close>

record 't client_runtime =
  clientClock :: 't
  clientNowISO :: string
  postDelivered :: bool
  getDelivered :: bool
  server_runtime :: "'t runtime"

text \<open>The component as it is first rendered: the initial values of its hooks.\<close>

definition initial_CallAgent :: "Appointment list \<Rightarrow> CallAgent" where
  "initial_CallAgent initialAppointments =
     \<lparr>ui_appointments = initialAppointments, transcript = [], callActive = False,
      callerNumber = ''+1 555 010 1987'', currentStepIdx = - 1, pendingResponse = [],
      form = \<lparr>f_name = None, f_requestedSlot = None, f_reason = None, f_phoneNumber = None\<rparr>,
      callCompleted = False, isSubmitting = False, ui_error = None\<rparr>"

definition agentSteps :: "(string \<times> string) list" where
  "agentSteps =
     [(''greeting'',
       ''Hello! This is Aurora, the autonomous scheduling assistant for Horizon Clinic. Thanks for calling. Who do I have the pleasure of speaking with today?''),
      (''datetime'', ''Perfect, thank you. What day and time works best for your visit?''),
      (''reason'',
       ''Got it. Lastly, could you share the reason for your appointment so the provider can prepare?''),
      (''confirm'', ''Thanks! Let me process that for you and lock in the appointment.'')]"

definition activeStep :: "int \<Rightarrow> string option" where
  "activeStep idx =
     (if 0 \<le> idx \<and> nat idx < length agentSteps then Some (fst (agentSteps ! nat idx))
      else None)"

definition pushTranscript :: "speaker \<Rightarrow> string \<Rightarrow> CallAgent \<Rightarrow> CallAgent" where
  "pushTranscript who txt ui = ui\<lparr>transcript := transcript ui @ [(who, txt)]\<rparr>"

definition resetCall :: "CallAgent \<Rightarrow> CallAgent" where
  "resetCall ui =
     ui\<lparr>callActive := False, callCompleted := False, transcript := [],
        currentStepIdx := - 1,
        form := \<lparr>f_name = None, f_requestedSlot = None, f_reason = None,
                  f_phoneNumber = Some (callerNumber ui)\<rparr>,
        pendingResponse := [], ui_error := None\<rparr>"

text \<open>
  Starting a call resets the component and makes the call active; the step index is
  set and the greeting is pushed 300 ms later, from a timer. The input is enabled as
  soon as the call is active, so an answer can be submitted before the timer fires.
\<close>

definition beginCall :: "CallAgent \<Rightarrow> CallAgent" where
  "beginCall ui0 =
     (let ui = resetCall ui0;
          ui = ui\<lparr>callActive := True\<rparr>
      in ui\<lparr>form := (form ui)\<lparr>f_phoneNumber := Some (callerNumber ui)\<rparr>\<rparr>)"

definition beginCall_timer :: "CallAgent \<Rightarrow> CallAgent" where
  "beginCall_timer ui = pushTranscript Agent (snd (agentSteps ! 0)) (ui\<lparr>currentStepIdx := 0\<rparr>)"

text \<open>
  The handler of a submission. After the name and after the date the component pushes
  its next prompt from a timer, 450 ms later; the step index is set at once, so the
  timer decides only where the prompt stands in the transcript, and the model pushes
  the prompt at once.
\<close>

definition handleSubmitResponse ::
  "'t dateParser \<Rightarrow> 't client_runtime \<Rightarrow> CallAgent \<Rightarrow> server \<Rightarrow> CallAgent \<times> server" where
  "handleSubmitResponse dp crt ui0 srv =
     (if \<not> callActive ui0 \<or> isSubmitting ui0 then (ui0, srv)
      else if trim (pendingResponse ui0) = [] then
        (ui0\<lparr>ui_error := Some ''Please provide a response before continuing.''\<rparr>, srv)
      else
        (let responseText = trim (pendingResponse ui0);
             step = activeStep (currentStepIdx ui0);
             ui = ui0\<lparr>ui_error := None\<rparr>;
             ui = pushTranscript Caller responseText ui;
             ui = ui\<lparr>pendingResponse := []\<rparr>
         in
           if step = Some ''greeting'' then
             (pushTranscript Agent (snd (agentSteps ! 1))
                (ui\<lparr>form := (form ui)\<lparr>f_name := Some responseText\<rparr>, currentStepIdx := 1\<rparr>),
              srv)
           else if step = Some ''datetime'' then
             (case parseDateTime dp (clientClock crt) responseText of
                None \<Rightarrow>
                  (pushTranscript Agent
                     ''Apologies, I couldn't recognise that time. Could you rephrase it, for example next Tuesday at 3 PM?''
                     ui,
                   srv)
              | Some parsed \<Rightarrow>
                  (pushTranscript Agent (snd (agentSteps ! 2))
                     (ui\<lparr>form := (form ui)\<lparr>f_requestedSlot := Some (toISOString dp parsed)\<rparr>,
                         currentStepIdx := 2\<rparr>),
                   srv))
           else if step = Some ''reason'' then
             (let ui = ui\<lparr>form := (form ui)\<lparr>f_reason := Some responseText\<rparr>,
                          currentStepIdx := 3\<rparr>;
                  ui = pushTranscript Agent (snd (agentSteps ! 3)) ui;
                  appointmentDate =
                    (case f_requestedSlot (form ui0) of Some d \<Rightarrow> d | None \<Rightarrow> clientNowISO crt);
                  payload =
                    JObject
                      [(''customerName'',
                        JString (case f_name (form ui0) of Some n \<Rightarrow> n | None \<Rightarrow> ''Caller'')),
                       (''appointmentDateTime'', JString appointmentDate),
                       (''reason'', JString responseText),
                       (''contactNumber'',
                        JString (case f_phoneNumber (form ui0) of Some n \<Rightarrow> n | None \<Rightarrow> ''N/A'')),
                       (''callSummary'',
                        JString
                          (''AI agent booked '' @
                           (case f_name (form ui0) of Some n \<Rightarrow> n | None \<Rightarrow> ''caller'') @
                           '' for '' @ responseText @ ''.''))];
                  failed =
                    pushTranscript Agent
                      ''There was an issue locking in the appointment, but I captured your details. A team member will follow up shortly.''
                      (ui\<lparr>isSubmitting := False\<rparr>)
              in
                if \<not> postDelivered crt then (failed, srv)
                else
                  (let res = fst (appointments_POST (server_runtime crt) (Parsed payload) srv);
                       srv' = snd (appointments_POST (server_runtime crt) (Parsed payload) srv)
                   in
                     if \<not> (200 \<le> api_status res \<and> api_status res \<le> 299) then (failed, srv')
                     else
                       (let ui = (if getDelivered crt
                                  then ui\<lparr>ui_appointments := appointments_GET srv'\<rparr> else ui);
                            ui = ui\<lparr>callCompleted := True, isSubmitting := False\<rparr>
                        in (pushTranscript Agent
                              (''All set! I have you on the schedule for '' @
                               formatHumanReadable dp (JString appointmentDate) @
                               ''. You'll also get a confirmation text shortly. Have a wonderful day!'')
                              ui,
                            srv'))))
           else (ui, srv)))"

section \<open>Sequences of turns\<close>

text \<open>
  The webhook handles one request at a time. A sequence of requests, each with what
  it draws from the environment, is handled from left to right, every request on the
  server as the one before left it; requests of different calls may be interleaved.
\<close>

text \<open>The phase in the stored state of a call, when the store has one.\<close>

definition stored_phase :: "server \<Rightarrow> string \<Rightarrow> phase option" where
  "stored_phase srv c = map_option phase (callStates srv c)"

text \<open>The phase \<open>getCallState\<close> would hand out for a call: greeting when nothing is stored.\<close>

definition phase_of :: "server \<Rightarrow> string \<Rightarrow> phase" where
  "phase_of srv c = phase (fst (getCallState (callStates srv) c))"

text \<open>The stored phase of call \<open>c\<close> after each request of a sequence.\<close>

fun phases :: "'t dateParser \<Rightarrow> string \<Rightarrow> ('t runtime \<times> request) list \<Rightarrow> server \<Rightarrow> phase option list" where
  "phases dp c [] srv = []"
| "phases dp c ((rt, req) # ts) srv =
     stored_phase (snd (POST dp rt req srv)) c # phases dp c ts (snd (POST dp rt req srv))"

text \<open>The appointments that the requests of call \<open>c\<close> add to the store.\<close>

fun booked_by :: "'t dateParser \<Rightarrow> string \<Rightarrow> ('t runtime \<times> request) list \<Rightarrow> server \<Rightarrow> Appointment list" where
  "booked_by dp c [] srv = []"
| "booked_by dp c ((rt, req) # ts) srv =
     (if callSid_of rt req = c
      then drop (length (appointments srv)) (appointments (snd (POST dp rt req srv)))
      else []) @
     booked_by dp c ts (snd (POST dp rt req srv))"

text \<open>
  The step a reply asks the telephony provider to post the next answer to: the
  \<open>step\<close> in the action URL of a \<open>Gather\<close>; none after a hang-up.
\<close>

fun next_step :: "twiml \<Rightarrow> string option" where
  "next_step (Gather prompt step orig) = Some step"
| "next_step (Say message) = None"

text \<open>
  A sequence of requests follows the prompts of call \<open>c\<close> when every request of that
  call carries the step its previous reply named (\<open>expected\<close>; \<open>init\<close> for the first
  one) and the call sends nothing after a hang-up.
\<close>

fun follows :: "'t dateParser \<Rightarrow> string \<Rightarrow> string option \<Rightarrow> ('t runtime \<times> request) list \<Rightarrow> server \<Rightarrow> bool" where
  "follows dp c expected [] srv = True"
| "follows dp c expected ((rt, req) # ts) srv =
     (if callSid_of rt req = c then
        (case expected of
           None \<Rightarrow> False
         | Some st \<Rightarrow>
             step_of req = st \<and>
             follows dp c (next_step (body (fst (POST dp rt req srv)))) ts
               (snd (POST dp rt req srv)))
      else follows dp c expected ts (snd (POST dp rt req srv)))"

text \<open>Every stored state sits under its own identifier.\<close>

definition wf_store :: "(string \<rightharpoonup> CallState) \<Rightarrow> bool" where
  "wf_store store = (\<forall>k s. store k = Some s \<longrightarrow> callId s = k)"

text \<open>The order of the phases, and the moves of a stored phase from one request to the
  next that go forward by one assigned phase (or stay, or end with the state removed).\<close>

fun phase_rank :: "phase \<Rightarrow> nat" where
  "phase_rank Greeting = 0"
| "phase_rank CollectingName = 1"
| "phase_rank CollectingDatetime = 2"
| "phase_rank CollectingReason = 3"
| "phase_rank Completed = 4"

fun advances :: "phase option \<Rightarrow> phase option \<Rightarrow> bool" where
  "advances None None = True"
| "advances None (Some q) = (q = Greeting)"
| "advances (Some p) None = (p = CollectingReason)"
| "advances (Some p) (Some q) =
     (q = p \<or> (p = Greeting \<and> q = CollectingDatetime)
            \<or> (p = CollectingDatetime \<and> q = CollectingReason)
            \<or> (p = CollectingReason \<and> q = Completed))"

text \<open>The phases in a list of observations, leaving out the moments without a state.\<close>

fun stored :: "phase option list \<Rightarrow> phase list" where
  "stored [] = []"
| "stored (None # ps) = stored ps"
| "stored (Some p # ps) = p # stored ps"

text \<open>
  The stored phase that goes with the step a call is expected to post next: nothing
  is stored before \<open>init\<close>, and after a hang-up the state is either gone or left at
  completed.
\<close>

fun awaited :: "string option \<Rightarrow> phase option \<Rightarrow> bool" where
  "awaited None p = (p = None \<or> p = Some Completed)"
| "awaited (Some st) p =
     (if st = ''init'' then p = None
      else if st = ''name'' then p = Some Greeting
      else if st = ''datetime'' then p = Some CollectingDatetime
      else if st = ''reason'' then p = Some CollectingReason
      else False)"

section \<open>One call through each adapter\<close>

text \<open>
  The telephony provider opens a call with a request for step \<open>init\<close> and then posts
  each utterance of the caller to the step the last reply named, until a reply hangs
  up.
\<close>

definition webhook_request :: "string \<Rightarrow> string \<Rightarrow> string option \<Rightarrow> string \<Rightarrow> string option \<Rightarrow> request" where
  "webhook_request orig c caller st utterance =
     \<lparr>step_param = Some st, origin = orig, form_CallSid = Some c, form_From = caller,
      form_SpeechResult = map_option StringEntry utterance, form_Digits = None\<rparr>"

fun webhook_turns ::
  "'t dateParser \<Rightarrow> string \<Rightarrow> string \<Rightarrow> string option \<Rightarrow> ('t runtime \<times> string) list \<Rightarrow>
   twiml \<times> server \<Rightarrow> twiml \<times> server" where
  "webhook_turns dp orig c caller [] (reply, srv) = (reply, srv)"
| "webhook_turns dp orig c caller ((rt, u) # ts) (reply, srv) =
     (case next_step reply of
        None \<Rightarrow> (reply, srv)
      | Some st \<Rightarrow>
          webhook_turns dp orig c caller ts
            (body (fst (POST dp rt (webhook_request orig c caller st (Some u)) srv)),
             snd (POST dp rt (webhook_request orig c caller st (Some u)) srv)))"

definition webhook_dialogue ::
  "'t dateParser \<Rightarrow> string \<Rightarrow> string \<Rightarrow> string option \<Rightarrow> 't runtime \<Rightarrow> ('t runtime \<times> string) list \<Rightarrow>
   server \<Rightarrow> twiml \<times> server" where
  "webhook_dialogue dp orig c caller rt0 turns srv =
     webhook_turns dp orig c caller turns
       (body (fst (POST dp rt0 (webhook_request orig c caller ''init'' None) srv)),
        snd (POST dp rt0 (webhook_request orig c caller ''init'' None) srv))"

text \<open>
  In the simulator the caller starts a call, hears the greeting (the start timer has
  fired), then types each utterance and submits it; the input controls are disabled
  while no call is active, once the call has completed and during a submission.
\<close>

fun simulator_turns ::
  "'t dateParser \<Rightarrow> ('t client_runtime \<times> string) list \<Rightarrow> CallAgent \<times> server \<Rightarrow> CallAgent \<times> server" where
  "simulator_turns dp [] (ui, srv) = (ui, srv)"
| "simulator_turns dp ((crt, u) # ts) (ui, srv) =
     (if \<not> callActive ui \<or> callCompleted ui \<or> isSubmitting ui then (ui, srv)
      else simulator_turns dp ts (handleSubmitResponse dp crt (ui\<lparr>pendingResponse := u\<rparr>) srv))"

definition simulator_dialogue ::
  "'t dateParser \<Rightarrow> ('t client_runtime \<times> string) list \<Rightarrow> CallAgent \<Rightarrow> server \<Rightarrow> CallAgent \<times> server" where
  "simulator_dialogue dp turns ui srv =
     simulator_turns dp turns (beginCall_timer (beginCall ui), srv)"

text \<open>The position of each adapter in the dialogue: the simulator's step index, and the
  index of the step the webhook's last reply asks for (3 once it has hung up).\<close>

fun step_index :: "string option \<Rightarrow> int" where
  "step_index None = 3"
| "step_index (Some st) =
     (if st = ''name'' then 0 else if st = ''datetime'' then 1
      else if st = ''reason'' then 2 else - 1)"

text \<open>What a booking says about the visit, whichever adapter made it.\<close>

definition visit :: "Appointment \<Rightarrow> json \<times> json \<times> json" where
  "visit a = (appt_customerName a, appt_appointmentDateTime a, appt_reason a)"

text \<open>
  The simulator and the webhook are at the same point of a call: the same step is
  awaited, the simulator has completed exactly when the webhook has hung up, and while
  the call is open the name and the slot captured so far are the same on both sides.
\<close>

definition in_step :: "string \<Rightarrow> CallAgent \<Rightarrow> twiml \<Rightarrow> server \<Rightarrow> bool" where
  "in_step c ui reply srv =
     (callActive ui \<and> \<not> isSubmitting ui \<and>
      0 \<le> currentStepIdx ui \<and> step_index (next_step reply) = currentStepIdx ui \<and>
      (callCompleted ui \<longleftrightarrow> next_step reply = None) \<and>
      (next_step reply \<noteq> None \<longrightarrow>
         (\<exists>st. callStates srv c = Some st \<and> callId st = c \<and>
            (1 \<le> currentStepIdx ui \<longrightarrow>
               f_name (form ui) = customerName st \<and> truthy (customerName st)) \<and>
            (2 \<le> currentStepIdx ui \<longrightarrow>
               f_requestedSlot (form ui) = appointmentDateTime st \<and>
               truthy (appointmentDateTime st)))))"

section \<open>The date parser, from its specification\<close>

text \<open>
  Modelled from the spec: \<open>parseDateTime\<close> of the module \<open>@/lib/dateParser\<close> is missing
  from the sources. The spec asks the parser to recognise weekday names (optionally
  after ``next''), clock times with an am or pm marker, the words noon, morning,
  afternoon and evening, month names followed by a day, and today and tomorrow; and to
  return a failure value when it can extract no recognisable date or time token. The
  model lower-cases the text, cuts it into words (runs of letters and digits) and
  looks for such tokens. The calendar arithmetic that turns the words into an instant
  relative to the reference time is the parameter \<open>resolve\<close>, which may fail as well.
  The reference time is the current time of the side that calls the parser.
\<close>

definition to_lower :: "char \<Rightarrow> char" where
  "to_lower c =
     (let n = (of_char c :: nat) in if 65 \<le> n \<and> n \<le> 90 then char_of (n + 32) else c)"

definition is_digit :: "char \<Rightarrow> bool" where
  "is_digit c = (let n = (of_char c :: nat) in 48 \<le> n \<and> n \<le> 57)"

definition is_alnum :: "char \<Rightarrow> bool" where
  "is_alnum c =
     (let n = (of_char c :: nat)
      in (48 \<le> n \<and> n \<le> 57) \<or> (65 \<le> n \<and> n \<le> 90) \<or> (97 \<le> n \<and> n \<le> 122))"

fun split_words :: "string \<Rightarrow> string \<Rightarrow> string list" where
  "split_words cur [] = (if cur = [] then [] else [cur])"
| "split_words cur (c # cs) =
     (if is_alnum c then split_words (cur @ [c]) cs
      else (if cur = [] then [] else [cur]) @ split_words [] cs)"

definition words_of :: "string \<Rightarrow> string list" where
  "words_of s = split_words [] s"

definition weekday_names :: "string list" where
  "weekday_names =
     [''sunday'', ''monday'', ''tuesday'', ''wednesday'', ''thursday'', ''friday'', ''saturday'']"

definition month_names :: "string list" where
  "month_names =
     [''january'', ''february'', ''march'', ''april'', ''may'', ''june'', ''july'', ''august'',
      ''september'', ''october'', ''november'', ''december'']"

definition relative_day_names :: "string list" where
  "relative_day_names = [''today'', ''tomorrow'']"

definition day_part_names :: "string list" where
  "day_part_names = [''noon'', ''morning'', ''afternoon'', ''evening'']"

text \<open>A clock time with its marker: \<open>am\<close> or \<open>pm\<close>, alone or after the digits of the hour.\<close>

definition clock_token :: "string \<Rightarrow> bool" where
  "clock_token w =
     (let marker = dropWhile is_digit w in marker = ''am'' \<or> marker = ''pm'')"

definition date_time_token :: "string \<Rightarrow> bool" where
  "date_time_token w =
     (w \<in> set weekday_names \<or> w \<in> set month_names \<or> w \<in> set relative_day_names \<or>
      w \<in> set day_part_names \<or> clock_token w)"

definition parseDateTime_spec :: "(string list \<Rightarrow> 't \<Rightarrow> 't option) \<Rightarrow> 't \<Rightarrow> string \<Rightarrow> 't option" where
  "parseDateTime_spec resolve reference text =
     (let ws = words_of (map to_lower text)
      in if filter date_time_token ws = [] then None else resolve ws reference)"

definition spec_dateParser ::
  "(string list \<Rightarrow> 't \<Rightarrow> 't option) \<Rightarrow> ('t \<Rightarrow> string) \<Rightarrow> (json \<Rightarrow> string) \<Rightarrow> 't dateParser" where
  "spec_dateParser resolve to_iso fmt =
     \<lparr>parseDateTime = parseDateTime_spec resolve, toISOString = to_iso,
      formatHumanReadable = fmt\<rparr>"

section \<open>Sample inputs\<close>

text \<open>
  Concrete inputs on which the theorems below are exercised: a parser that knows one
  phrase, a parser built from the specification model that resolves every recognised
  text to its reference time, an environment whose clocks read 0, and a server with
  empty stores.
\<close>

definition sample_parser :: "nat dateParser" where
  "sample_parser =
     \<lparr>parseDateTime = (\<lambda>now s. if s = ''next Tuesday at 3 PM'' then Some (now + 7) else None),
      toISOString = (\<lambda>t. ''2030-06-11T15:00:00.000Z''),
      formatHumanReadable = (\<lambda>s. ''Tue, Jun 11 at 3:00 PM'')\<rparr>"

definition sample_spec_parser :: "nat dateParser" where
  "sample_spec_parser =
     spec_dateParser (\<lambda>ws r. Some r) (\<lambda>t. ''2030-06-11T15:00:00.000Z'')
       (\<lambda>s. ''Tue, Jun 11 at 3:00 PM'')"

definition sample_runtime :: "nat runtime" where
  "sample_runtime =
     \<lparr>randomUUID = ''uuid-0001'', newAppointmentId = ''appt-0001'',
      nowISO = ''2030-06-04T10:00:00.000Z'', clock = 0\<rparr>"

definition sample_client_runtime :: "nat client_runtime" where
  "sample_client_runtime =
     \<lparr>clientClock = 0, clientNowISO = ''2030-06-04T10:00:00.000Z'', postDelivered = True,
      getDelivered = True, server_runtime = sample_runtime\<rparr>"

text \<open>A parser that knows the word \<open>tomorrow\<close> and counts days from the reference
  time it is given, and a browser whose clock is one day ahead of the server's.\<close>

definition calendar_parser :: "nat dateParser" where
  "calendar_parser =
     \<lparr>parseDateTime = (\<lambda>now s. if s = ''tomorrow'' then Some (now + 1) else None),
      toISOString =
        (\<lambda>t. if t = 1 then ''2030-06-05T00:00:00.000Z'' else ''2030-06-06T00:00:00.000Z''),
      formatHumanReadable = (\<lambda>s. ''Wed, Jun 5 at 12:00 AM'')\<rparr>"

definition late_client_runtime :: "nat client_runtime" where
  "late_client_runtime =
     \<lparr>clientClock = 1, clientNowISO = ''2030-06-05T10:00:00.000Z'', postDelivered = True,
      getDelivered = True, server_runtime = sample_runtime\<rparr>"

definition empty_server :: server where
  "empty_server = \<lparr>callStates = Map.empty, appointments = []\<rparr>"

definition sample_call_state :: CallState where
  "sample_call_state =
     \<lparr>callId = ''CA1'', phase = CollectingReason, customerName = Some ''Jane Doe'',
      appointmentDateTime = Some ''2030-06-11T15:00:00.000Z'', reason = None,
      contactNumber = None\<rparr>"

definition sample_datetime_state :: CallState where
  "sample_datetime_state =
     \<lparr>callId = ''CA1'', phase = CollectingDatetime, customerName = Some ''Jane Doe'',
      appointmentDateTime = None, reason = None, contactNumber = None\<rparr>"

definition sample_datetime_ui :: CallAgent where
  "sample_datetime_ui =
     \<lparr>ui_appointments = [], transcript = [], callActive = True,
      callerNumber = ''+1 555 010 1987'', currentStepIdx = 1,
      pendingResponse = ''banana sandwich'',
      form = \<lparr>f_name = Some ''Jane Doe'', f_requestedSlot = None, f_reason = None,
               f_phoneNumber = Some ''+1 555 010 1987''\<rparr>,
      callCompleted = False, isSubmitting = False, ui_error = None\<rparr>"

definition sample_reason_ui :: CallAgent where
  "sample_reason_ui =
     \<lparr>ui_appointments = [], transcript = [], callActive = True,
      callerNumber = ''+1 555 010 1987'', currentStepIdx = 2,
      pendingResponse = '' annual checkup '',
      form = \<lparr>f_name = Some ''Jane Doe'', f_requestedSlot = None, f_reason = None,
               f_phoneNumber = Some ''+1 555 010 1987''\<rparr>,
      callCompleted = False, isSubmitting = False, ui_error = None\<rparr>"

text \<open>Requests of sample calls without a caller number, and two sequences of them:
  one that posts step \<open>reason\<close> right after the name and then step \<open>name\<close> again,
  and one that follows the prompts of call \<open>CA1\<close> while a second call goes on.\<close>

definition sample_turn :: "string \<Rightarrow> string \<Rightarrow> string option \<Rightarrow> nat runtime \<times> request" where
  "sample_turn c st utterance =
     (sample_runtime, webhook_request ''https://clinic.example'' c None st utterance)"

definition replayed_turns :: "(nat runtime \<times> request) list" where
  "replayed_turns =
     [sample_turn ''CA1'' ''init'' None,
      sample_turn ''CA1'' ''name'' (Some ''Jane Doe''),
      sample_turn ''CA1'' ''reason'' (Some ''annual checkup''),
      sample_turn ''CA1'' ''name'' (Some ''Jane Doe'')]"

definition orderly_turns :: "(nat runtime \<times> request) list" where
  "orderly_turns =
     [sample_turn ''CA1'' ''init'' None,
      sample_turn ''CA2'' ''init'' None,
      sample_turn ''CA1'' ''name'' (Some ''Jane Doe''),
      sample_turn ''CA1'' ''datetime'' (Some ''banana sandwich''),
      sample_turn ''CA1'' ''datetime'' (Some ''next Tuesday at 3 PM''),
      sample_turn ''CA2'' ''name'' (Some ''John Roe''),
      sample_turn ''CA1'' ''reason'' (Some ''annual checkup'')]"

text \<open>What a caller says in a sample call, with a silence and a phrase that is no date.\<close>

definition sample_utterances :: "(nat client_runtime \<times> string) list" where
  "sample_utterances =
     [(sample_client_runtime, ''Jane Doe''),
      (sample_client_runtime, ''   ''),
      (sample_client_runtime, ''banana sandwich''),
      (sample_client_runtime, ''next Tuesday at 3 PM''),
      (sample_client_runtime, ''annual checkup'')]"

section \<open>Facts about utterances\<close>

lemma truthy_iff: "truthy v \<longleftrightarrow> (\<exists>s. v = Some s \<and> s \<noteq> [])"
  by (cases v) (auto simp: truthy_def)

lemma ensureSpeechResult_nonempty: "ensureSpeechResult v = Some sp \<Longrightarrow> sp \<noteq> []"
  by (auto simp: ensureSpeechResult_def split: option.splits FormDataEntryValue.splits if_splits)

lemma speechResult_of_nonempty: "speechResult_of req = Some sp \<Longrightarrow> sp \<noteq> []"
  by (auto simp: speechResult_of_def split: option.splits dest: ensureSpeechResult_nonempty)

lemma truthy_speechResult_of: "truthy (speechResult_of req) \<longleftrightarrow> speechResult_of req \<noteq> None"
  by (cases "speechResult_of req") (auto simp: truthy_def dest: speechResult_of_nonempty)

section \<open>Facts about the call-state store\<close>

lemma fst_getCallState:
  "fst (getCallState store c) = (case store c of Some s \<Rightarrow> s | None \<Rightarrow> freshCallState c)"
  by (simp add: getCallState_def split: option.splits)

lemma snd_getCallState_apply:
  "snd (getCallState store c) k = (if k = c then Some (fst (getCallState store c)) else store k)"
  by (simp add: getCallState_def split: option.splits)

lemma snd_getCallState_upd:
  "(snd (getCallState store c))(c \<mapsto> x) = store(c \<mapsto> x)"
  by (simp add: getCallState_def split: option.splits)

lemma snd_getCallState_clear:
  "(snd (getCallState store c))(c := None) = store(c := None)"
  by (simp add: getCallState_def split: option.splits)

lemma phase_of_getCallState:
  "phase (fst (getCallState (snd (getCallState store c)) k)) = phase (fst (getCallState store k))"
  by (simp add: getCallState_def freshCallState_def split: option.splits)

lemma callId_loaded:
  "wf_store store \<Longrightarrow> callId (fst (getCallState store c)) = c"
  by (auto simp: getCallState_def freshCallState_def wf_store_def split: option.splits)

lemma wf_store_upd: "wf_store store \<Longrightarrow> callId s = k \<Longrightarrow> wf_store (store(k \<mapsto> s))"
  by (simp add: wf_store_def)

lemma wf_store_clear: "wf_store store \<Longrightarrow> wf_store (store(k := None))"
  by (simp add: wf_store_def)

lemma wf_store_get: "wf_store store \<Longrightarrow> wf_store (snd (getCallState store c))"
  by (auto simp: getCallState_def freshCallState_def wf_store_def split: option.splits)

section \<open>The handler, branch by branch\<close>

text \<open>
  One equation for each branch of the handler. In them \<open>st\<close> is the state the handler
  loads for the call of the request; the handler works on \<open>st\<close> with the caller's
  number put in, when the request has one.
\<close>

lemma POST_init:
  assumes "step_of req = ''init''"
      and "fst (getCallState (callStates srv) (callSid_of rt req)) = st"
      and "callId st = callSid_of rt req"
  shows "POST dp rt req srv =
    (xmlResponse
       (Gather ''Hello! You have reached the Horizon Clinic virtual scheduling assistant. May I have your full name?''
          ''name'' (origin req)),
     srv\<lparr>callStates := (callStates srv)
           (callSid_of rt req \<mapsto>
              st\<lparr>contactNumber := (if truthy (form_From req) then form_From req else contactNumber st)\<rparr>)\<rparr>)"
  using assms by (auto simp add: POST_def Let_def saveCallState_def snd_getCallState_upd)

lemma POST_silent:
  assumes "speechResult_of req = None" and "step_of req \<noteq> ''init''"
  shows "snd (POST dp rt req srv) =
           srv\<lparr>callStates := snd (getCallState (callStates srv) (callSid_of rt req))\<rparr>"
  using assms by (simp add: POST_def Let_def truthy_def)

lemma POST_name_silent:
  assumes "step_of req = ''name''" and "speechResult_of req = None"
  shows "POST dp rt req srv =
    (xmlResponse
       (Gather ''I did not hear a name. Could you please tell me your full name?''
          ''name'' (origin req)),
     srv\<lparr>callStates := snd (getCallState (callStates srv) (callSid_of rt req))\<rparr>)"
  using assms by (simp add: POST_def Let_def truthy_def)

lemma POST_name:
  assumes "step_of req = ''name''" and "speechResult_of req = Some sp"
      and "fst (getCallState (callStates srv) (callSid_of rt req)) = st"
      and "callId st = callSid_of rt req"
  shows "POST dp rt req srv =
    (xmlResponse
       (Gather (''Thanks '' @ sp @ ''. What day and time would you like to book the appointment for?'')
          ''datetime'' (origin req)),
     srv\<lparr>callStates := (callStates srv)
           (callSid_of rt req \<mapsto>
              st\<lparr>contactNumber := (if truthy (form_From req) then form_From req else contactNumber st),
                 customerName := Some sp, phase := CollectingDatetime\<rparr>)\<rparr>)"
  using assms speechResult_of_nonempty [OF assms(2)]
  by (auto simp add: POST_def Let_def saveCallState_def snd_getCallState_upd truthy_def)

lemma POST_datetime_silent:
  assumes "step_of req = ''datetime''" and "speechResult_of req = None"
  shows "POST dp rt req srv =
    (xmlResponse
       (Gather ''I didn't catch the appointment time. Please share the day and time you'd prefer.''
          ''datetime'' (origin req)),
     srv\<lparr>callStates := snd (getCallState (callStates srv) (callSid_of rt req))\<rparr>)"
  using assms by (simp add: POST_def Let_def truthy_def)

lemma POST_datetime_unparsed:
  assumes "step_of req = ''datetime''" and "speechResult_of req = Some sp"
      and "parseDateTime dp (clock rt) sp = None"
  shows "POST dp rt req srv =
    (xmlResponse
       (Gather ''I'm sorry, I couldn't understand that date. Please state something like Friday at 2 PM or June fifth at 9 in the morning.''
          ''datetime'' (origin req)),
     srv\<lparr>callStates := snd (getCallState (callStates srv) (callSid_of rt req))\<rparr>)"
  using assms speechResult_of_nonempty [OF assms(2)] by (simp add: POST_def Let_def truthy_def)

lemma POST_datetime_parsed:
  assumes "step_of req = ''datetime''" and "speechResult_of req = Some sp"
      and "parseDateTime dp (clock rt) sp = Some parsed"
      and "fst (getCallState (callStates srv) (callSid_of rt req)) = st"
      and "callId st = callSid_of rt req"
  shows "POST dp rt req srv =
    (xmlResponse
       (Gather ''Great. What is the reason for your visit so I can let the practitioner prepare?''
          ''reason'' (origin req)),
     srv\<lparr>callStates := (callStates srv)
           (callSid_of rt req \<mapsto>
              st\<lparr>contactNumber := (if truthy (form_From req) then form_From req else contactNumber st),
                 appointmentDateTime := Some (toISOString dp parsed),
                 phase := CollectingReason\<rparr>)\<rparr>)"
  using assms speechResult_of_nonempty [OF assms(2)]
  by (auto simp add: POST_def Let_def saveCallState_def snd_getCallState_upd truthy_def)

lemma POST_reason_silent:
  assumes "step_of req = ''reason''" and "speechResult_of req = None"
  shows "POST dp rt req srv =
    (xmlResponse
       (Gather ''Could you quickly describe the reason for your appointment?''
          ''reason'' (origin req)),
     srv\<lparr>callStates := snd (getCallState (callStates srv) (callSid_of rt req))\<rparr>)"
  using assms by (simp add: POST_def Let_def truthy_def)

lemma POST_reason_aborts:
  assumes "step_of req = ''reason''" and "speechResult_of req = Some sp"
      and "fst (getCallState (callStates srv) (callSid_of rt req)) = st"
      and "callId st = callSid_of rt req"
      and "\<not> truthy (customerName st) \<or> \<not> truthy (appointmentDateTime st)"
  shows "POST dp rt req srv =
    (xmlResponse
       (Say ''It seems I am missing some information to complete the booking. Please try again later or reach out to our reception team.''),
     srv\<lparr>callStates := (callStates srv)
           (callSid_of rt req \<mapsto>
              st\<lparr>contactNumber := (if truthy (form_From req) then form_From req else contactNumber st),
                 reason := Some sp, phase := Completed\<rparr>)\<rparr>)"
  using assms speechResult_of_nonempty [OF assms(2)]
  by (auto simp add: POST_def Let_def saveCallState_def snd_getCallState_upd truthy_def)

lemma POST_reason_books:
  assumes "step_of req = ''reason''" and "speechResult_of req = Some sp"
      and "fst (getCallState (callStates srv) (callSid_of rt req)) = st"
      and "callId st = callSid_of rt req"
      and "customerName st = Some n" and "n \<noteq> []"
      and "appointmentDateTime st = Some d" and "d \<noteq> []"
  shows "POST dp rt req srv =
    (xmlResponse
       (Say (''Thanks '' @ n @ ''. I have scheduled your appointment for '' @
             formatHumanReadable dp (JString d) @ ''. We look forward to seeing you then.'')),
     srv\<lparr>callStates := (callStates srv)(callSid_of rt req := None),
         appointments := appointments srv @
           [\<lparr>appt_id = newAppointmentId rt, appt_customerName = JString n,
             appt_appointmentDateTime = JString d, appt_reason = JString sp,
             appt_contactNumber =
               JString
                 (case (if truthy (form_From req) then form_From req else contactNumber st) of
                    Some c \<Rightarrow> c | None \<Rightarrow> ''Unknown''),
             appt_callSummary =
               JString (''AI assistant booked for '' @ n @ '' to discuss '' @ sp @ ''.''),
             appt_createdAt = nowISO rt\<rparr>]\<rparr>)"
  using assms speechResult_of_nonempty [OF assms(2)]
  by (simp add: POST_def Let_def saveCallState_def clearCallState_def addAppointment_def
      truthy_def fun_upd_twist snd_getCallState_clear)

lemma POST_other_step:
  assumes "step_of req \<noteq> ''init''" and "step_of req \<noteq> ''name''"
      and "step_of req \<noteq> ''datetime''" and "step_of req \<noteq> ''reason''"
  shows "POST dp rt req srv =
    (xmlResponse
       (Say ''I'm sorry, something went wrong while handling your request. Please try again later.''),
     srv\<lparr>callStates := snd (getCallState (callStates srv) (callSid_of rt req))\<rparr>)"
  using assms by (simp add: POST_def Let_def)


lemma snd_getCallState_eq:
  "snd (getCallState store c) = store(c \<mapsto> fst (getCallState store c))"
  by (auto simp: getCallState_def split: option.splits)

lemma POST_frame:
  assumes "wf_store (callStates srv)" and "k \<noteq> callSid_of rt req"
  shows "callStates (snd (POST dp rt req srv)) k = callStates srv k"
proof -
  have id: "callId (fst (getCallState (callStates srv) (callSid_of rt req))) = callSid_of rt req"
    using assms(1) by (rule callId_loaded)
  show ?thesis
    using id assms(2)
    by (simp add: POST_def Let_def saveCallState_def clearCallState_def snd_getCallState_apply
        split: option.splits)
qed

lemma POST_wf:
  assumes "wf_store (callStates srv)"
  shows "wf_store (callStates (snd (POST dp rt req srv)))"
proof -
  have id: "callId (fst (getCallState (callStates srv) (callSid_of rt req))) = callSid_of rt req"
    using assms(1) by (rule callId_loaded)
  have wf': "wf_store (snd (getCallState (callStates srv) (callSid_of rt req)))"
    using assms by (rule wf_store_get)
  show ?thesis
    using id wf'
    by (simp add: POST_def Let_def saveCallState_def clearCallState_def wf_store_upd wf_store_clear
        split: option.splits)
qed

lemma POST_appointments:
  "appointments (snd (POST dp rt req srv)) = appointments srv \<or>
   (\<exists>a. appointments (snd (POST dp rt req srv)) = appointments srv @ [a])"
  by (simp add: POST_def Let_def addAppointment_def split: option.splits)


lemma loaded_of_stored:
  "callStates srv c = Some st \<Longrightarrow> fst (getCallState (callStates srv) c) = st"
  by (simp add: getCallState_def)

lemma stored_get:
  "callStates srv c = Some st \<Longrightarrow> snd (getCallState (callStates srv) c) = callStates srv"
  by (simp add: getCallState_def)

lemma only_booking_clears:
  assumes "callStates srv c \<noteq> None"
      and "callStates (snd (POST dp rt req srv)) c = None"
  shows "length (appointments (snd (POST dp rt req srv))) = length (appointments srv) + 1"
  using assms
  by (simp add: POST_def Let_def saveCallState_def clearCallState_def addAppointment_def
      snd_getCallState_apply split: option.splits if_splits)

section \<open>Finalising a call through the webhook\<close>

text \<open>
  C1. A request for step \<open>reason\<close> that carries an utterance, for a call whose stored
  state has a non-empty customer name and appointment time, adds exactly one
  appointment to the store (its summary put together from the name and the reason),
  removes the state of that call from the call-state store, and is answered with
  status 200 and an XML document that says the confirmation, in which the captured
  name and the human-readable form of the appointment time stand, and then hangs up.
\<close>

theorem webhook_books_appointment:
  assumes "step_of req = ''reason''"
      and "speechResult_of req = Some sp"
      and "callStates srv (callSid_of rt req) = Some st"
      and "callId st = callSid_of rt req"
      and "customerName st = Some n" and "n \<noteq> []"
      and "appointmentDateTime st = Some d" and "d \<noteq> []"
  shows \<open>status (fst (POST dp rt req srv)) = 200 \<and>
         contentType (fst (POST dp rt req srv)) = ''text/xml'' \<and>
         body (fst (POST dp rt req srv)) =
           Say (''Thanks '' @ n @ ''. I have scheduled your appointment for '' @
                formatHumanReadable dp (JString d) @ ''. We look forward to seeing you then.'') \<and>
         xml_of (body (fst (POST dp rt req srv))) =
           ''<?xml version="1.0" encoding="UTF-8"?>'' @ [CHR 0x0A] @
           ''<Response>'' @ [CHR 0x0A] @
           ''  <Say>Thanks '' @ n @ ''. I have scheduled your appointment for '' @
             formatHumanReadable dp (JString d) @
             ''. We look forward to seeing you then.</Say>'' @ [CHR 0x0A] @
           ''  <Hangup />'' @ [CHR 0x0A] @
           ''</Response>'' \<and>
         snd (POST dp rt req srv) =
           srv\<lparr>callStates := (callStates srv)(callSid_of rt req := None),
               appointments := appointments srv @
                 [\<lparr>appt_id = newAppointmentId rt, appt_customerName = JString n,
                   appt_appointmentDateTime = JString d, appt_reason = JString sp,
                   appt_contactNumber =
                     JString
                       (case (if truthy (form_From req) then form_From req
                              else contactNumber st) of
                          Some c \<Rightarrow> c | None \<Rightarrow> ''Unknown''),
                   appt_callSummary =
                     JString (''AI assistant booked for '' @ n @ '' to discuss '' @ sp @ ''.''),
                   appt_createdAt = nowISO rt\<rparr>]\<rparr>\<close>
proof -
  have loaded: "fst (getCallState (callStates srv) (callSid_of rt req)) = st"
    using assms(3) by (rule loaded_of_stored)
  note booked = POST_reason_books [OF assms(1,2) loaded assms(4-8), of dp]
  show ?thesis
    by (simp add: booked xmlResponse_def sayMessage_def)
qed

text \<open>C1, on the sample call: Jane Doe's state is stored with her name and slot, and
  the request brings the reason.\<close>

theorem webhook_books_appointment_witness:
  \<open>status (fst (POST sample_parser sample_runtime
      (webhook_request ''https://clinic.example'' ''CA1'' None ''reason'' (Some ''annual checkup''))
      \<lparr>callStates = [''CA1'' \<mapsto> sample_call_state], appointments = []\<rparr>)) = 200 \<and>
   body (fst (POST sample_parser sample_runtime
      (webhook_request ''https://clinic.example'' ''CA1'' None ''reason'' (Some ''annual checkup''))
      \<lparr>callStates = [''CA1'' \<mapsto> sample_call_state], appointments = []\<rparr>)) =
     Say ''Thanks Jane Doe. I have scheduled your appointment for Tue, Jun 11 at 3:00 PM. We look forward to seeing you then.'' \<and>
   xml_of (body (fst (POST sample_parser sample_runtime
      (webhook_request ''https://clinic.example'' ''CA1'' None ''reason'' (Some ''annual checkup''))
      \<lparr>callStates = [''CA1'' \<mapsto> sample_call_state], appointments = []\<rparr>))) =
     ''<?xml version="1.0" encoding="UTF-8"?>'' @ [CHR 0x0A] @
     ''<Response>'' @ [CHR 0x0A] @
     ''  <Say>Thanks Jane Doe. I have scheduled your appointment for Tue, Jun 11 at 3:00 PM. We look forward to seeing you then.</Say>'' @ [CHR 0x0A] @
     ''  <Hangup />'' @ [CHR 0x0A] @
     ''</Response>'' \<and>
   snd (POST sample_parser sample_runtime
      (webhook_request ''https://clinic.example'' ''CA1'' None ''reason'' (Some ''annual checkup''))
      \<lparr>callStates = [''CA1'' \<mapsto> sample_call_state], appointments = []\<rparr>) =
     \<lparr>callStates = Map.empty,
      appointments =
        [\<lparr>appt_id = ''appt-0001'', appt_customerName = JString ''Jane Doe'',
          appt_appointmentDateTime = JString ''2030-06-11T15:00:00.000Z'',
          appt_reason = JString ''annual checkup'', appt_contactNumber = JString ''Unknown'',
          appt_callSummary =
            JString ''AI assistant booked for Jane Doe to discuss annual checkup.'',
          appt_createdAt = ''2030-06-04T10:00:00.000Z''\<rparr>]\<rparr>\<close>
proof -
  let ?req =
    "webhook_request ''https://clinic.example'' ''CA1'' None ''reason'' (Some ''annual checkup'')"
  let ?srv = "\<lparr>callStates = [''CA1'' \<mapsto> sample_call_state], appointments = []\<rparr>"
  have step: "step_of ?req = ''reason''"
    by (simp add: step_of_def webhook_request_def)
  have speech: "speechResult_of ?req = Some ''annual checkup''"
    by (simp add: speechResult_of_def webhook_request_def ensureSpeechResult_def trim_def
        is_space_def)
  have sid: "callSid_of sample_runtime ?req = ''CA1''"
    by (simp add: callSid_of_def webhook_request_def)
  have stored: "callStates ?srv (callSid_of sample_runtime ?req) = Some sample_call_state"
    by (simp add: sid)
  have own: "callId sample_call_state = callSid_of sample_runtime ?req"
    by (simp add: sid sample_call_state_def)
  have name: "customerName sample_call_state = Some ''Jane Doe''" "''Jane Doe'' \<noteq> []"
    by (simp_all add: sample_call_state_def)
  have slot: "appointmentDateTime sample_call_state = Some ''2030-06-11T15:00:00.000Z''"
      "''2030-06-11T15:00:00.000Z'' \<noteq> []"
    by (simp_all add: sample_call_state_def)
  have number: "form_From ?req = None" "contactNumber sample_call_state = None"
    by (simp_all add: webhook_request_def sample_call_state_def)
  have shown: "formatHumanReadable sample_parser (JString ''2030-06-11T15:00:00.000Z'') =
      ''Tue, Jun 11 at 3:00 PM''"
    by (simp add: sample_parser_def)
  have env: "newAppointmentId sample_runtime = ''appt-0001''"
      "nowISO sample_runtime = ''2030-06-04T10:00:00.000Z''"
    by (simp_all add: sample_runtime_def)
  show ?thesis
    using webhook_books_appointment [OF step speech stored own name slot, of sample_parser]
    by (simp add: sid number shown env truthy_def sayMessage_def)
qed

text \<open>
  C3 does not hold as stated: the branch for a missing field returns before the state
  is cleared. On a call with no stored state, a request for step \<open>reason\<close> is answered
  with the apology and books nothing, and afterwards the store holds a state for the
  call, at phase completed.
\<close>

theorem abort_leaves_call_state_counterexample:
  "POST sample_parser sample_runtime
     (webhook_request ''https://clinic.example'' ''CA1'' None ''reason'' (Some ''annual checkup''))
     empty_server =
   (xmlResponse
      (Say ''It seems I am missing some information to complete the booking. Please try again later or reach out to our reception team.''),
    \<lparr>callStates =
       [''CA1'' \<mapsto>
          \<lparr>callId = ''CA1'', phase = Completed, customerName = None,
           appointmentDateTime = None, reason = Some ''annual checkup'',
           contactNumber = None\<rparr>],
     appointments = []\<rparr>)"
  by (simp add: POST_def Let_def webhook_request_def step_of_def callSid_of_def
      speechResult_of_def ensureSpeechResult_def trim_def is_space_def empty_server_def
      getCallState_def freshCallState_def saveCallState_def truthy_def sample_runtime_def)

text \<open>
  C3, amended. A request for step \<open>reason\<close> that carries an utterance, for a call whose
  state (as loaded, or as created when none is stored) lacks a customer name or an
  appointment time, is answered with a \<open>Say\<close> of the apology followed by a hang-up,
  leaves the appointments as they were, and keeps the state of the call in the store,
  saved with the reason and phase completed. Only the booking path clears a state:
  whenever a request makes a stored state disappear, it has added an appointment.
\<close>

theorem abort_keeps_call_state:
  assumes "step_of req = ''reason''"
      and "speechResult_of req = Some sp"
      and "fst (getCallState (callStates srv) (callSid_of rt req)) = st"
      and "callId st = callSid_of rt req"
      and "\<not> truthy (customerName st) \<or> \<not> truthy (appointmentDateTime st)"
  shows "POST dp rt req srv =
     (xmlResponse
        (Say ''It seems I am missing some information to complete the booking. Please try again later or reach out to our reception team.''),
      srv\<lparr>callStates := (callStates srv)
            (callSid_of rt req \<mapsto>
               st\<lparr>contactNumber := (if truthy (form_From req) then form_From req else contactNumber st),
                  reason := Some sp, phase := Completed\<rparr>)\<rparr>) \<and>
     status (fst (POST dp rt req srv)) = 200 \<and>
     body (fst (POST dp rt req srv)) =
       Say ''It seems I am missing some information to complete the booking. Please try again later or reach out to our reception team.'' \<and>
     (callStates srv c \<noteq> None \<and> callStates (snd (POST dp rt' req' srv)) c = None \<longrightarrow>
        length (appointments (snd (POST dp rt' req' srv))) = length (appointments srv) + 1)"
proof -
  note aborted = POST_reason_aborts [OF assms, of dp]
  show ?thesis
    using only_booking_clears [of srv c dp rt' req']
    by (simp add: aborted xmlResponse_def)
qed

text \<open>C3, amended, on a call whose stored state has a name and no appointment time.\<close>

theorem abort_keeps_call_state_witness:
  "POST sample_parser sample_runtime
     (webhook_request ''https://clinic.example'' ''CA1'' None ''reason'' (Some ''annual checkup''))
     \<lparr>callStates = [''CA1'' \<mapsto> sample_datetime_state], appointments = []\<rparr> =
   (xmlResponse
      (Say ''It seems I am missing some information to complete the booking. Please try again later or reach out to our reception team.''),
    \<lparr>callStates =
       [''CA1'' \<mapsto>
          \<lparr>callId = ''CA1'', phase = Completed, customerName = Some ''Jane Doe'',
           appointmentDateTime = None, reason = Some ''annual checkup'',
           contactNumber = None\<rparr>],
     appointments = []\<rparr>)"
  using abort_keeps_call_state [of
      "webhook_request ''https://clinic.example'' ''CA1'' None ''reason'' (Some ''annual checkup'')"
      "''annual checkup''"
      "\<lparr>callStates = [''CA1'' \<mapsto> sample_datetime_state], appointments = []\<rparr>"
      sample_runtime sample_datetime_state sample_parser]
  by (simp add: webhook_request_def step_of_def callSid_of_def speechResult_of_def
      ensureSpeechResult_def trim_def is_space_def sample_datetime_state_def getCallState_def
      truthy_def)

text \<open>
  C5. After a request for step \<open>reason\<close> has booked the appointment of a call, the
  store has no state for that call. The same request sent again finds the state
  \<open>getCallState\<close> creates for an unknown call, at phase greeting and without a name, so
  it is answered with the apology and the appointments stay as the first request left
  them: one more than before, not two.
\<close>

theorem replay_books_nothing:
  assumes "step_of req = ''reason''"
      and "speechResult_of req = Some sp"
      and "callStates srv (callSid_of rt req) = Some st"
      and "callId st = callSid_of rt req"
      and "customerName st = Some n" and "n \<noteq> []"
      and "appointmentDateTime st = Some d" and "d \<noteq> []"
      and "callSid_of rt' req = callSid_of rt req"
  shows "length (appointments (snd (POST dp rt req srv))) = length (appointments srv) + 1 \<and>
         callStates (snd (POST dp rt req srv)) (callSid_of rt req) = None \<and>
         fst (getCallState (callStates (snd (POST dp rt req srv))) (callSid_of rt' req)) =
           freshCallState (callSid_of rt req) \<and>
         phase (freshCallState (callSid_of rt req)) = Greeting \<and>
         appointments (snd (POST dp rt' req (snd (POST dp rt req srv)))) =
           appointments (snd (POST dp rt req srv)) \<and>
         body (fst (POST dp rt' req (snd (POST dp rt req srv)))) =
           Say ''It seems I am missing some information to complete the booking. Please try again later or reach out to our reception team.''"
proof -
  have loaded: "fst (getCallState (callStates srv) (callSid_of rt req)) = st"
    using assms(3) by (rule loaded_of_stored)
  note first = POST_reason_books [OF assms(1,2) loaded assms(4-8), of dp]
  have replay: "POST dp rt' req srv1 =
     (xmlResponse
        (Say ''It seems I am missing some information to complete the booking. Please try again later or reach out to our reception team.''),
      srv1\<lparr>callStates := (callStates srv1)
            (callSid_of rt' req \<mapsto>
               (freshCallState (callSid_of rt' req))
                 \<lparr>contactNumber :=
                    (if truthy (form_From req) then form_From req
                     else contactNumber (freshCallState (callSid_of rt' req))),
                  reason := Some sp, phase := Completed\<rparr>)\<rparr>)"
    if "callStates srv1 (callSid_of rt' req) = None" for srv1
  proof (rule POST_reason_aborts [OF assms(1,2)])
    show "fst (getCallState (callStates srv1) (callSid_of rt' req)) =
        freshCallState (callSid_of rt' req)"
      using that by (simp add: getCallState_def)
    show "callId (freshCallState (callSid_of rt' req)) = callSid_of rt' req"
      by (simp add: freshCallState_def)
    show "\<not> truthy (customerName (freshCallState (callSid_of rt' req))) \<or>
          \<not> truthy (appointmentDateTime (freshCallState (callSid_of rt' req)))"
      by (simp add: freshCallState_def truthy_def)
  qed
  show ?thesis
    by (simp add: first replay assms(9) getCallState_def freshCallState_def xmlResponse_def)
qed

text \<open>C5, on the sample call: the request that booked Jane Doe's appointment, sent
  twice, leaves one appointment.\<close>

theorem replay_books_nothing_witness:
  "length (appointments (snd (POST sample_parser sample_runtime
      (webhook_request ''https://clinic.example'' ''CA1'' None ''reason'' (Some ''annual checkup''))
      (snd (POST sample_parser sample_runtime
         (webhook_request ''https://clinic.example'' ''CA1'' None ''reason'' (Some ''annual checkup''))
         \<lparr>callStates = [''CA1'' \<mapsto> sample_call_state], appointments = []\<rparr>))))) = 1"
  using replay_books_nothing [of
      "webhook_request ''https://clinic.example'' ''CA1'' None ''reason'' (Some ''annual checkup'')"
      "''annual checkup''"
      "\<lparr>callStates = [''CA1'' \<mapsto> sample_call_state], appointments = []\<rparr>"
      sample_runtime sample_call_state "''Jane Doe''" "''2030-06-11T15:00:00.000Z''"
      sample_runtime sample_parser]
  by (simp add: webhook_request_def step_of_def callSid_of_def speechResult_of_def
      ensureSpeechResult_def trim_def is_space_def sample_call_state_def)

section \<open>Answers the webhook cannot use at the date step\<close>

text \<open>
  C4 does not hold as stated: at step \<open>datetime\<close> the reply to an empty utterance and
  the reply to a phrase the parser rejects carry different prompts. On the sample call,
  stored at phase collecting-datetime, a blank utterance and ``banana sandwich'' get
  different replies.
\<close>

theorem datetime_retry_prompts_differ_counterexample:
  "body (fst (POST sample_parser sample_runtime
       (webhook_request ''https://clinic.example'' ''CA1'' None ''datetime'' (Some ''  ''))
       \<lparr>callStates = [''CA1'' \<mapsto> sample_datetime_state], appointments = []\<rparr>)) \<noteq>
   body (fst (POST sample_parser sample_runtime
       (webhook_request ''https://clinic.example'' ''CA1'' None ''datetime'' (Some ''banana sandwich''))
       \<lparr>callStates = [''CA1'' \<mapsto> sample_datetime_state], appointments = []\<rparr>))"
  by (simp add: POST_def Let_def webhook_request_def step_of_def callSid_of_def
      speechResult_of_def ensureSpeechResult_def trim_def is_space_def getCallState_def
      xmlResponse_def truthy_def sample_parser_def)

text \<open>
  C4, amended. For a call in the collecting-datetime phase, a request for step
  \<open>datetime\<close> with an empty (after trimming) or missing utterance leaves the phase at
  collecting-datetime and asks again for step \<open>datetime\<close> with the prompt ``I didn't
  catch the appointment time \<dots>''; a request whose utterance the parser rejects leaves
  the phase at collecting-datetime as well and asks again for step \<open>datetime\<close> with
  the prompt ``I'm sorry, I couldn't understand that date \<dots>''. The two prompts are
  different texts.
\<close>

theorem datetime_retry_prompts:
  assumes "step_of req = ''datetime''" and "speechResult_of req = None"
      and "step_of req' = ''datetime''" and "speechResult_of req' = Some sp"
      and "parseDateTime dp (clock rt') sp = None"
      and "phase_of srv (callSid_of rt req) = CollectingDatetime"
      and "phase_of srv (callSid_of rt' req') = CollectingDatetime"
  shows "phase_of (snd (POST dp rt req srv)) (callSid_of rt req) = CollectingDatetime \<and>
         phase_of (snd (POST dp rt' req' srv)) (callSid_of rt' req') = CollectingDatetime \<and>
         body (fst (POST dp rt req srv)) =
           Gather ''I didn't catch the appointment time. Please share the day and time you'd prefer.''
             ''datetime'' (origin req) \<and>
         body (fst (POST dp rt' req' srv)) =
           Gather ''I'm sorry, I couldn't understand that date. Please state something like Friday at 2 PM or June fifth at 9 in the morning.''
             ''datetime'' (origin req') \<and>
         ''I didn't catch the appointment time. Please share the day and time you'd prefer.'' \<noteq>
         ''I'm sorry, I couldn't understand that date. Please state something like Friday at 2 PM or June fifth at 9 in the morning.''"
  using assms(6,7)
  by (simp add: POST_datetime_silent [OF assms(1,2)] POST_datetime_unparsed [OF assms(3,4,5)]
      xmlResponse_def phase_of_def phase_of_getCallState)

text \<open>C4, amended, on the sample call at phase collecting-datetime.\<close>

theorem datetime_retry_prompts_witness:
  "phase_of (snd (POST sample_parser sample_runtime
       (webhook_request ''https://clinic.example'' ''CA1'' None ''datetime'' (Some ''  ''))
       \<lparr>callStates = [''CA1'' \<mapsto> sample_datetime_state], appointments = []\<rparr>)) ''CA1'' =
     CollectingDatetime \<and>
   phase_of (snd (POST sample_parser sample_runtime
       (webhook_request ''https://clinic.example'' ''CA1'' None ''datetime'' (Some ''banana sandwich''))
       \<lparr>callStates = [''CA1'' \<mapsto> sample_datetime_state], appointments = []\<rparr>)) ''CA1'' =
     CollectingDatetime"
proof -
  let ?srv = "\<lparr>callStates = [''CA1'' \<mapsto> sample_datetime_state], appointments = []\<rparr>"
  let ?silent = "webhook_request ''https://clinic.example'' ''CA1'' None ''datetime'' (Some ''  '')"
  let ?garbage =
    "webhook_request ''https://clinic.example'' ''CA1'' None ''datetime'' (Some ''banana sandwich'')"
  have steps: "step_of ?silent = ''datetime''" "step_of ?garbage = ''datetime''"
    by (simp_all add: step_of_def webhook_request_def)
  have silent: "speechResult_of ?silent = None"
    by (simp add: speechResult_of_def webhook_request_def ensureSpeechResult_def trim_def
        is_space_def)
  have garbage: "speechResult_of ?garbage = Some ''banana sandwich''"
    by (simp add: speechResult_of_def webhook_request_def ensureSpeechResult_def trim_def
        is_space_def)
  have rejected: "parseDateTime sample_parser (clock sample_runtime) ''banana sandwich'' = None"
    by (simp add: sample_parser_def)
  have ids: "callSid_of sample_runtime ?silent = ''CA1''"
      "callSid_of sample_runtime ?garbage = ''CA1''"
    by (simp_all add: callSid_of_def webhook_request_def)
  have phase: "phase_of ?srv ''CA1'' = CollectingDatetime"
    by (simp add: phase_of_def getCallState_def sample_datetime_state_def)
  show ?thesis
    using datetime_retry_prompts [OF steps(1) silent steps(2) garbage rejected,
        where srv = ?srv and rt = sample_runtime]
    by (simp add: ids phase)
qed

section \<open>The simulator, step by step\<close>

lemma simulator_silent:
  assumes "callActive ui" and "\<not> isSubmitting ui" and "trim (pendingResponse ui) = []"
  shows "handleSubmitResponse dp crt ui srv =
     (ui\<lparr>ui_error := Some ''Please provide a response before continuing.''\<rparr>, srv)"
  using assms by (simp add: handleSubmitResponse_def)

lemma simulator_unparsed:
  assumes "callActive ui" and "\<not> isSubmitting ui"
      and "trim (pendingResponse ui) = r" and "r \<noteq> []"
      and "currentStepIdx ui = 1"
      and "parseDateTime dp (clientClock crt) r = None"
  shows "handleSubmitResponse dp crt ui srv =
     (ui\<lparr>ui_error := None,
         transcript := transcript ui @
           [(Caller, r),
            (Agent, ''Apologies, I couldn't recognise that time. Could you rephrase it, for example next Tuesday at 3 PM?'')],
         pendingResponse := []\<rparr>, srv)"
  using assms
  by (simp add: handleSubmitResponse_def Let_def activeStep_def agentSteps_def pushTranscript_def)

lemma name_prompt_simulator:
  assumes "callActive ui" and "\<not> isSubmitting ui" and "currentStepIdx ui = 0"
      and "trim (pendingResponse ui) = r" and "r \<noteq> []"
  shows "transcript (fst (handleSubmitResponse dp crt ui srv)) =
           transcript ui @
             [(Caller, r),
              (Agent, ''Perfect, thank you. What day and time works best for your visit?'')]"
  using assms
  by (simp add: handleSubmitResponse_def Let_def activeStep_def agentSteps_def pushTranscript_def)

section \<open>Text without a date\<close>

lemma parseDateTime_spec_no_token:
  assumes "\<forall>w \<in> set (words_of (map to_lower text)). \<not> date_time_token w"
  shows "parseDateTime_spec resolve reference text = None"
  using assms by (simp add: parseDateTime_spec_def Let_def filter_empty_conv)

lemma banana_words: "words_of (map to_lower ''banana sandwich'') = [''banana'', ''sandwich'']"
  by (simp add: words_of_def to_lower_def is_alnum_def)

lemma banana_tokens: "\<forall>w \<in> set [''banana'', ''sandwich'']. \<not> date_time_token w"
  by (simp add: date_time_token_def weekday_names_def month_names_def relative_day_names_def
      day_part_names_def clock_token_def is_digit_def)

text \<open>
  C6. When no word of the text is a recognisable date or time token, the parser of the
  specification model returns its failure value \<open>None\<close> (the \<open>null\<close> both adapters test
  for): it is a total function, so nothing is thrown, and the result is no time stamp
  at all, the reference time included, at every reference time. Both adapters, each
  calling the parser at its own current time, answer that failure by asking again:
  the webhook replies with its clarification prompt for step \<open>datetime\<close>, keeps every
  call's phase and books nothing; the simulator pushes its apology and leaves its step
  index, its form and the server as they were.
\<close>

theorem unparseable_date_reprompts:
  assumes "\<forall>w \<in> set (words_of (map to_lower text)). \<not> date_time_token w"
      and "parseDateTime dp = parseDateTime_spec resolve"
      and "step_of req = ''datetime''" and "speechResult_of req = Some text"
      and "callActive ui" and "\<not> isSubmitting ui" and "currentStepIdx ui = 1"
      and "trim (pendingResponse ui) = text"
  shows "parseDateTime_spec resolve reference text = None \<and>
         parseDateTime_spec resolve reference text \<noteq> Some reference \<and>
         body (fst (POST dp rt req srv)) =
           Gather ''I'm sorry, I couldn't understand that date. Please state something like Friday at 2 PM or June fifth at 9 in the morning.''
             ''datetime'' (origin req) \<and>
         phase_of (snd (POST dp rt req srv)) c = phase_of srv c \<and>
         appointments (snd (POST dp rt req srv)) = appointments srv \<and>
         handleSubmitResponse dp crt ui srv' =
           (ui\<lparr>ui_error := None,
               transcript := transcript ui @
                 [(Caller, text),
                  (Agent, ''Apologies, I couldn't recognise that time. Could you rephrase it, for example next Tuesday at 3 PM?'')],
               pendingResponse := []\<rparr>, srv')"
proof -
  have none: "parseDateTime_spec resolve reference text = None"
    using assms(1) by (rule parseDateTime_spec_no_token)
  have dp_none: "parseDateTime dp now text = None" for now
    using assms(1) by (simp add: assms(2) parseDateTime_spec_no_token)
  have ne: "text \<noteq> []"
    using assms(4) by (rule speechResult_of_nonempty)
  note web = POST_datetime_unparsed [OF assms(3,4) dp_none [of "clock rt"], of srv]
  have sim: "handleSubmitResponse dp crt ui srv' =
           (ui\<lparr>ui_error := None,
               transcript := transcript ui @
                 [(Caller, text),
                  (Agent, ''Apologies, I couldn't recognise that time. Could you rephrase it, for example next Tuesday at 3 PM?'')],
               pendingResponse := []\<rparr>, srv')"
    using assms(5,6,8) ne assms(7) dp_none [of "clientClock crt"] by (rule simulator_unparsed)
  show ?thesis
    using none sim by (simp add: web xmlResponse_def phase_of_def phase_of_getCallState)
qed

text \<open>C6, on ``banana sandwich'': the parser built from the specification model fails,
  the webhook asks again and the call stays at its phase, the simulator stays at step 1.\<close>

theorem unparseable_date_reprompts_witness:
  "parseDateTime sample_spec_parser 0 ''banana sandwich'' = None \<and>
   body (fst (POST sample_spec_parser sample_runtime
       (webhook_request ''https://clinic.example'' ''CA1'' None ''datetime'' (Some ''banana sandwich''))
       empty_server)) =
     Gather ''I'm sorry, I couldn't understand that date. Please state something like Friday at 2 PM or June fifth at 9 in the morning.''
       ''datetime'' ''https://clinic.example'' \<and>
   phase_of (snd (POST sample_spec_parser sample_runtime
       (webhook_request ''https://clinic.example'' ''CA1'' None ''datetime'' (Some ''banana sandwich''))
       empty_server)) ''CA1'' = Greeting \<and>
   currentStepIdx (fst (handleSubmitResponse sample_spec_parser sample_client_runtime
       sample_datetime_ui empty_server)) = 1"
proof -
  have h1: "\<forall>w \<in> set (words_of (map to_lower ''banana sandwich'')). \<not> date_time_token w"
    unfolding banana_words by (rule banana_tokens)
  have h2: "parseDateTime sample_spec_parser = parseDateTime_spec (\<lambda>ws r. Some r)"
    by (simp add: sample_spec_parser_def spec_dateParser_def)
  have h3: "step_of (webhook_request ''https://clinic.example'' ''CA1'' None ''datetime''
                (Some ''banana sandwich'')) = ''datetime''"
    by (simp add: step_of_def webhook_request_def)
  have h4: "speechResult_of (webhook_request ''https://clinic.example'' ''CA1'' None ''datetime''
                (Some ''banana sandwich'')) = Some ''banana sandwich''"
    by (simp add: speechResult_of_def webhook_request_def ensureSpeechResult_def trim_def
        is_space_def)
  have h5: "callActive sample_datetime_ui" "\<not> isSubmitting sample_datetime_ui"
    "currentStepIdx sample_datetime_ui = 1"
    by (simp_all add: sample_datetime_ui_def)
  have h6: "trim (pendingResponse sample_datetime_ui) = ''banana sandwich''"
    by (simp add: sample_datetime_ui_def trim_def is_space_def)
  have orig: "origin (webhook_request ''https://clinic.example'' ''CA1'' None ''datetime''
                (Some ''banana sandwich'')) = ''https://clinic.example''"
    by (simp add: webhook_request_def)
  have greeting: "phase_of empty_server ''CA1'' = Greeting"
    by (simp add: phase_of_def empty_server_def getCallState_def freshCallState_def)
  show ?thesis
    using unparseable_date_reprompts [OF h1 h2 h3 h4 h5 h6, where reference = 0
        and rt = sample_runtime and srv = empty_server and c = "''CA1''"
        and crt = sample_client_runtime and srv' = empty_server]
    by (simp add: h2 orig greeting sample_datetime_ui_def)
qed


section \<open>Bodies the appointment endpoint accepts\<close>

lemma summary_of_given:
  "\<not> nullish (payload_field payload ''callSummary'') \<Longrightarrow>
   summary_of payload = payload_field payload ''callSummary''"
  by (simp add: summary_of_def)

lemma summary_of_template:
  "nullish (payload_field payload ''callSummary'') \<Longrightarrow>
   summary_of payload =
     map_option (\<lambda>name. JString (''Conversation booked for '' @ name @ ''.''))
       (to_text (coalesce (payload_field payload ''customerName'') (JString ''client'')))"
  by (simp add: summary_of_def)

lemma to_text_string_or_missing:
  assumes "v = None \<or> v = Some JNull \<or> (\<exists>s. v = Some (JString s))"
  shows "to_text (coalesce v (JString ''client'')) \<noteq> None"
  using assms by (auto simp: coalesce_def)

text \<open>
  C7 does not hold as stated: a body can parse as JSON and still be rejected. The body
  \<open>null\<close> is a JSON text; the handler's guard on a falsy payload answers it with
  status 400 and creates nothing.
\<close>

theorem null_body_rejected_counterexample:
  "appointments_POST sample_runtime (Parsed JNull) empty_server =
     (\<lparr>api_status = 400, api_body = ErrorMessage ''Request body missing''\<rparr>, empty_server)"
  by (simp add: appointments_POST_def)

text \<open>
  C7, amended. Take a body that parses to a truthy JSON value (anything but \<open>null\<close>,
  \<open>false\<close>, \<open>0\<close> and the empty string). If it has a summary, or its customer name can be
  put into the summary's text, the endpoint answers with status 201 and the
  appointment it has added to the store, in which every field that is missing or
  \<open>null\<close> has its default: contact number \<open>Unknown\<close>, empty customer name, appointment
  time and reason, and the summary ``Conversation booked for'' the customer name (or
  \<open>client\<close>); every other field is passed on as it is. This is so for every body
  whose customer name is missing, \<open>null\<close> or a string: the endpoint never fails on a
  missing field. If the summary is missing and the customer name is a value that
  cannot be converted to text (an object with a member named \<open>toString\<close>, or an array
  that holds one), the endpoint answers with status 400 and the store stays as it was,
  as it does for a falsy body and for a body that does not parse; a parsed body gets
  status 201 in no other case.
\<close>

theorem appointment_endpoint_defaults:
  "(js_truthy payload \<and> summary_of payload = Some summary \<longrightarrow>
      appointments_POST rt (Parsed payload) srv =
        (\<lparr>api_status = 201,
          api_body = AppointmentCreated
            \<lparr>appt_id = newAppointmentId rt,
             appt_customerName = coalesce (payload_field payload ''customerName'') (JString []),
             appt_appointmentDateTime =
               coalesce (payload_field payload ''appointmentDateTime'') (JString []),
             appt_reason = coalesce (payload_field payload ''reason'') (JString []),
             appt_contactNumber =
               coalesce (payload_field payload ''contactNumber'') (JString ''Unknown''),
             appt_callSummary = summary,
             appt_createdAt = nowISO rt\<rparr>\<rparr>,
         srv\<lparr>appointments := appointments srv @
            [\<lparr>appt_id = newAppointmentId rt,
              appt_customerName = coalesce (payload_field payload ''customerName'') (JString []),
              appt_appointmentDateTime =
                coalesce (payload_field payload ''appointmentDateTime'') (JString []),
              appt_reason = coalesce (payload_field payload ''reason'') (JString []),
              appt_contactNumber =
                coalesce (payload_field payload ''contactNumber'') (JString ''Unknown''),
              appt_callSummary = summary,
              appt_createdAt = nowISO rt\<rparr>]\<rparr>)) \<and>
   (\<not> nullish (payload_field payload ''callSummary'') \<longrightarrow>
      summary_of payload = payload_field payload ''callSummary'') \<and>
   (nullish (payload_field payload ''callSummary'') \<and>
    to_text (coalesce (payload_field payload ''customerName'') (JString ''client'')) = Some name \<longrightarrow>
      summary_of payload = Some (JString (''Conversation booked for '' @ name @ ''.''))) \<and>
   (js_truthy payload \<and>
    (payload_field payload ''customerName'' = None \<or>
     payload_field payload ''customerName'' = Some JNull \<or>
     (\<exists>s. payload_field payload ''customerName'' = Some (JString s))) \<longrightarrow>
      api_status (fst (appointments_POST rt (Parsed payload) srv)) = 201) \<and>
   (api_status (fst (appointments_POST rt (Parsed payload) srv)) = 201 \<longleftrightarrow>
      js_truthy payload \<and>
      (\<not> nullish (payload_field payload ''callSummary'') \<or>
       to_text (coalesce (payload_field payload ''customerName'') (JString ''client'')) \<noteq> None)) \<and>
   (js_truthy payload \<and> nullish (payload_field payload ''callSummary'') \<and>
    to_text (coalesce (payload_field payload ''customerName'') (JString ''client'')) = None \<longrightarrow>
      appointments_POST rt (Parsed payload) srv =
        (\<lparr>api_status = 400, api_body = ErrorMessage cannot_convert\<rparr>, srv)) \<and>
   (\<not> js_truthy payload \<longrightarrow>
      appointments_POST rt (Parsed payload) srv =
        (\<lparr>api_status = 400, api_body = ErrorMessage ''Request body missing''\<rparr>, srv)) \<and>
   api_status (fst (appointments_POST rt (Rejects e) srv)) = 400 \<and>
   snd (appointments_POST rt (Rejects e) srv) = srv"
proof (intro conjI impI)
  assume "js_truthy payload \<and> summary_of payload = Some summary"
  then show "appointments_POST rt (Parsed payload) srv =
        (\<lparr>api_status = 201,
          api_body = AppointmentCreated
            \<lparr>appt_id = newAppointmentId rt,
             appt_customerName = coalesce (payload_field payload ''customerName'') (JString []),
             appt_appointmentDateTime =
               coalesce (payload_field payload ''appointmentDateTime'') (JString []),
             appt_reason = coalesce (payload_field payload ''reason'') (JString []),
             appt_contactNumber =
               coalesce (payload_field payload ''contactNumber'') (JString ''Unknown''),
             appt_callSummary = summary,
             appt_createdAt = nowISO rt\<rparr>\<rparr>,
         srv\<lparr>appointments := appointments srv @
            [\<lparr>appt_id = newAppointmentId rt,
              appt_customerName = coalesce (payload_field payload ''customerName'') (JString []),
              appt_appointmentDateTime =
                coalesce (payload_field payload ''appointmentDateTime'') (JString []),
              appt_reason = coalesce (payload_field payload ''reason'') (JString []),
              appt_contactNumber =
                coalesce (payload_field payload ''contactNumber'') (JString ''Unknown''),
              appt_callSummary = summary,
              appt_createdAt = nowISO rt\<rparr>]\<rparr>)"
    by (simp add: appointments_POST_def addAppointment_def Let_def)
next
  assume "\<not> nullish (payload_field payload ''callSummary'')"
  then show "summary_of payload = payload_field payload ''callSummary''"
    by (rule summary_of_given)
next
  assume "nullish (payload_field payload ''callSummary'') \<and>
    to_text (coalesce (payload_field payload ''customerName'') (JString ''client'')) = Some name"
  then show "summary_of payload = Some (JString (''Conversation booked for '' @ name @ ''.''))"
    by (simp add: summary_of_template)
next
  assume typed: "js_truthy payload \<and>
    (payload_field payload ''customerName'' = None \<or>
     payload_field payload ''customerName'' = Some JNull \<or>
     (\<exists>s. payload_field payload ''customerName'' = Some (JString s)))"
  then have "to_text (coalesce (payload_field payload ''customerName'') (JString ''client'')) \<noteq> None"
    by (intro to_text_string_or_missing) simp
  then have "summary_of payload \<noteq> None"
    by (cases "payload_field payload ''callSummary''") (auto simp: summary_of_def)
  then show "api_status (fst (appointments_POST rt (Parsed payload) srv)) = 201"
    using typed by (auto simp: appointments_POST_def addAppointment_def Let_def)
next
  show "api_status (fst (appointments_POST rt (Parsed payload) srv)) = 201 \<longleftrightarrow>
      js_truthy payload \<and>
      (\<not> nullish (payload_field payload ''callSummary'') \<or>
       to_text (coalesce (payload_field payload ''customerName'') (JString ''client'')) \<noteq> None)"
    by (cases "payload_field payload ''callSummary''")
       (auto simp: appointments_POST_def summary_of_def caught_def addAppointment_def Let_def
          split: option.splits)
next
  assume "js_truthy payload \<and> nullish (payload_field payload ''callSummary'') \<and>
    to_text (coalesce (payload_field payload ''customerName'') (JString ''client'')) = None"
  then show "appointments_POST rt (Parsed payload) srv =
        (\<lparr>api_status = 400, api_body = ErrorMessage cannot_convert\<rparr>, srv)"
    by (simp add: appointments_POST_def summary_of_template caught_def)
next
  assume "\<not> js_truthy payload"
  then show "appointments_POST rt (Parsed payload) srv =
        (\<lparr>api_status = 400, api_body = ErrorMessage ''Request body missing''\<rparr>, srv)"
    by (simp add: appointments_POST_def)
next
  show "api_status (fst (appointments_POST rt (Rejects e) srv)) = 400"
    by (simp add: appointments_POST_def caught_def)
  show "snd (appointments_POST rt (Rejects e) srv) = srv"
    by (simp add: appointments_POST_def)
qed

text \<open>C7, amended, on the empty object, where every field of the created appointment
  is a default, and on an object whose customer name has a member named \<open>toString\<close>,
  which is answered with status 400.\<close>

theorem appointment_endpoint_defaults_witness:
  "appointments_POST sample_runtime (Parsed (JObject [])) empty_server =
     (\<lparr>api_status = 201,
       api_body = AppointmentCreated
         \<lparr>appt_id = ''appt-0001'', appt_customerName = JString [],
          appt_appointmentDateTime = JString [], appt_reason = JString [],
          appt_contactNumber = JString ''Unknown'',
          appt_callSummary = JString ''Conversation booked for client.'',
          appt_createdAt = ''2030-06-04T10:00:00.000Z''\<rparr>\<rparr>,
      \<lparr>callStates = Map.empty,
       appointments =
         [\<lparr>appt_id = ''appt-0001'', appt_customerName = JString [],
           appt_appointmentDateTime = JString [], appt_reason = JString [],
           appt_contactNumber = JString ''Unknown'',
           appt_callSummary = JString ''Conversation booked for client.'',
           appt_createdAt = ''2030-06-04T10:00:00.000Z''\<rparr>]\<rparr>) \<and>
   appointments_POST sample_runtime
     (Parsed (JObject [(''customerName'', JObject [(''toString'', JNumber ''1'')])]))
     empty_server =
     (\<lparr>api_status = 400,
       api_body = ErrorMessage ''Cannot convert object to primitive value''\<rparr>,
      empty_server)"
proof -
  have summary: "summary_of (JObject []) = Some (JString ''Conversation booked for client.'')"
    by (simp add: summary_of_def coalesce_def)
  have thrown: "to_text (coalesce
      (payload_field (JObject [(''customerName'', JObject [(''toString'', JNumber ''1'')])])
         ''customerName'')
      (JString ''client'')) = None"
    by (simp add: coalesce_def)
  show ?thesis
    using appointment_endpoint_defaults [of "JObject []"
        "JString ''Conversation booked for client.''" sample_runtime empty_server]
      appointment_endpoint_defaults [of
        "JObject [(''customerName'', JObject [(''toString'', JNumber ''1'')])]" _
        sample_runtime empty_server]
      summary thrown
    by (simp add: sample_runtime_def empty_server_def coalesce_def cannot_convert_def)
qed

section \<open>A reason submitted in the simulator without a slot\<close>

text \<open>
  C9. When the simulator's form holds no requested slot and a non-empty answer is
  submitted at the reason step (step index 2), the handler does not ask again: it
  posts the booking with the browser's current time as the appointment time, and once
  the response has arrived the store holds one more appointment with that time, the
  call is completed and the transcript ends with the confirmation for that time.
\<close>

theorem simulator_books_now_without_slot:
  assumes "callActive ui" and "\<not> isSubmitting ui"
      and "trim (pendingResponse ui) = r" and "r \<noteq> []"
      and "currentStepIdx ui = 2"
      and "f_requestedSlot (form ui) = None"
      and "postDelivered crt"
  shows "snd (handleSubmitResponse dp crt ui srv) =
           srv\<lparr>appointments := appointments srv @
             [\<lparr>appt_id = newAppointmentId (server_runtime crt),
               appt_customerName =
                 JString (case f_name (form ui) of Some n \<Rightarrow> n | None \<Rightarrow> ''Caller''),
               appt_appointmentDateTime = JString (clientNowISO crt),
               appt_reason = JString r,
               appt_contactNumber =
                 JString (case f_phoneNumber (form ui) of Some n \<Rightarrow> n | None \<Rightarrow> ''N/A''),
               appt_callSummary =
                 JString
                   (''AI agent booked '' @
                    (case f_name (form ui) of Some n \<Rightarrow> n | None \<Rightarrow> ''caller'') @
                    '' for '' @ r @ ''.''),
               appt_createdAt = nowISO (server_runtime crt)\<rparr>]\<rparr> \<and>
         callCompleted (fst (handleSubmitResponse dp crt ui srv)) \<and>
         currentStepIdx (fst (handleSubmitResponse dp crt ui srv)) = 3 \<and>
         transcript (fst (handleSubmitResponse dp crt ui srv)) = transcript ui @
            [(Caller, r),
             (Agent, ''Thanks! Let me process that for you and lock in the appointment.''),
             (Agent, ''All set! I have you on the schedule for '' @
                     formatHumanReadable dp (JString (clientNowISO crt)) @
                     ''. You'll also get a confirmation text shortly. Have a wonderful day!'')]"
  using assms
  by (simp add: handleSubmitResponse_def Let_def activeStep_def agentSteps_def pushTranscript_def
      appointments_POST_def addAppointment_def summary_of_def coalesce_def)

text \<open>C9, on a component at the reason step whose form has a name and no slot.\<close>

theorem simulator_books_now_without_slot_witness:
  "appointments (snd (handleSubmitResponse sample_parser sample_client_runtime
      sample_reason_ui empty_server)) =
     [\<lparr>appt_id = ''appt-0001'', appt_customerName = JString ''Jane Doe'',
       appt_appointmentDateTime = JString ''2030-06-04T10:00:00.000Z'',
       appt_reason = JString ''annual checkup'',
       appt_contactNumber = JString ''+1 555 010 1987'',
       appt_callSummary = JString ''AI agent booked Jane Doe for annual checkup.'',
       appt_createdAt = ''2030-06-04T10:00:00.000Z''\<rparr>] \<and>
   callCompleted (fst (handleSubmitResponse sample_parser sample_client_runtime
      sample_reason_ui empty_server))"
  using simulator_books_now_without_slot [of sample_reason_ui "''annual checkup''"
      sample_client_runtime sample_parser empty_server]
  by (simp add: sample_reason_ui_def sample_client_runtime_def sample_runtime_def
      empty_server_def trim_def is_space_def)

section \<open>The stored phase along a sequence of requests\<close>

lemma advances_refl: "advances p p"
  by (cases p) simp_all

lemma stored_phase_frame:
  assumes "wf_store (callStates srv)" and "callSid_of rt req \<noteq> c"
  shows "stored_phase (snd (POST dp rt req srv)) c = stored_phase srv c"
  using POST_frame [OF assms(1), of c rt req dp] assms(2) by (simp add: stored_phase_def)

lemma follows_step:
  assumes wf: "wf_store (callStates srv)"
      and aw: "awaited (Some (step_of req)) (stored_phase srv (callSid_of rt req))"
  shows "awaited (next_step (body (fst (POST dp rt req srv))))
           (stored_phase (snd (POST dp rt req srv)) (callSid_of rt req)) \<and>
         advances (stored_phase srv (callSid_of rt req))
           (stored_phase (snd (POST dp rt req srv)) (callSid_of rt req)) \<and>
         next_step (body (fst (POST dp rt req srv))) \<noteq> Some ''init''"
proof -
  let ?c = "callSid_of rt req"
  let ?st = "fst (getCallState (callStates srv) ?c)"
  have id: "callId ?st = ?c"
    using wf by (rule callId_loaded)
  consider (init) "step_of req = ''init''" | (name) "step_of req = ''name''"
    | (datetime) "step_of req = ''datetime''" | (reason) "step_of req = ''reason''"
    using aw by (auto split: if_splits)
  then show ?thesis
  proof cases
    case init
    with aw have none: "callStates srv ?c = None"
      by (simp add: stored_phase_def)
    then have fresh: "?st = freshCallState ?c"
      by (simp add: getCallState_def)
    show ?thesis
      using none
      by (simp add: POST_init [OF init refl id] xmlResponse_def stored_phase_def fresh
          freshCallState_def)
  next
    case name
    with aw obtain st where st: "callStates srv ?c = Some st" "phase st = Greeting"
      by (auto simp: stored_phase_def)
    show ?thesis
    proof (cases "speechResult_of req")
      case None
      show ?thesis
        using st
        by (simp add: POST_name_silent [OF name None] xmlResponse_def stored_phase_def stored_get)
    next
      case (Some sp)
      show ?thesis
        using st
        by (simp add: POST_name [OF name Some refl id] xmlResponse_def stored_phase_def)
    qed
  next
    case datetime
    with aw obtain st where st: "callStates srv ?c = Some st" "phase st = CollectingDatetime"
      by (auto simp: stored_phase_def)
    show ?thesis
    proof (cases "speechResult_of req")
      case None
      show ?thesis
        using st
        by (simp add: POST_datetime_silent [OF datetime None] xmlResponse_def stored_phase_def
            stored_get)
    next
      case (Some sp)
      show ?thesis
      proof (cases "parseDateTime dp (clock rt) sp")
        case None
        show ?thesis
          using st
          by (simp add: POST_datetime_unparsed [OF datetime Some None] xmlResponse_def
              stored_phase_def stored_get)
      next
        case (Some parsed)
        show ?thesis
          using st
          by (simp add: POST_datetime_parsed [OF datetime \<open>speechResult_of req = Some sp\<close> Some refl id]
              xmlResponse_def stored_phase_def)
      qed
    qed
  next
    case reason
    with aw obtain st where st: "callStates srv ?c = Some st" "phase st = CollectingReason"
      by (auto simp: stored_phase_def)
    have loaded: "?st = st"
      using st(1) by (rule loaded_of_stored)
    show ?thesis
    proof (cases "speechResult_of req")
      case None
      show ?thesis
        using st
        by (simp add: POST_reason_silent [OF reason None] xmlResponse_def stored_phase_def
            stored_get)
    next
      case (Some sp)
      show ?thesis
      proof (cases "truthy (customerName ?st) \<and> truthy (appointmentDateTime ?st)")
        case True
        then obtain n d where nd: "customerName ?st = Some n" "n \<noteq> []"
            "appointmentDateTime ?st = Some d" "d \<noteq> []"
          by (auto simp: truthy_iff)
        show ?thesis
          using st
          by (simp add: POST_reason_books [OF reason Some refl id nd] xmlResponse_def
              stored_phase_def)
      next
        case False
        then have "\<not> truthy (customerName ?st) \<or> \<not> truthy (appointmentDateTime ?st)"
          by simp
        then show ?thesis
          using st
          by (simp add: POST_reason_aborts [OF reason Some refl id] xmlResponse_def
              stored_phase_def)
      qed
    qed
  qed
qed

lemma follows_advances:
  assumes "wf_store (callStates srv)"
      and "awaited expected (stored_phase srv c)"
      and "follows dp c expected turns srv"
  shows "successively advances (stored_phase srv c # phases dp c turns srv)"
  using assms
proof (induction turns arbitrary: srv expected)
  case Nil
  then show ?case by simp
next
  case (Cons t turns)
  obtain rt req where t: "t = (rt, req)"
    by (cases t)
  let ?srv' = "snd (POST dp rt req srv)"
  have wf': "wf_store (callStates ?srv')"
    using Cons.prems(1) by (rule POST_wf)
  show ?case
  proof (cases "callSid_of rt req = c")
    case True
    with Cons.prems(3) t obtain st where st: "expected = Some st" "step_of req = st"
      and rest: "follows dp c (next_step (body (fst (POST dp rt req srv)))) turns ?srv'"
      by (auto split: option.splits)
    have aw: "awaited (Some (step_of req)) (stored_phase srv (callSid_of rt req))"
      using Cons.prems(2) st True by simp
    note step = follows_step [OF Cons.prems(1) aw, of dp]
    have "successively advances (stored_phase ?srv' c # phases dp c turns ?srv')"
      using wf' step rest True by (intro Cons.IH) auto
    then show ?thesis
      using step True t by simp
  next
    case False
    with Cons.prems(3) t have rest: "follows dp c expected turns ?srv'"
      by simp
    have same: "stored_phase ?srv' c = stored_phase srv c"
      using Cons.prems(1) False by (rule stored_phase_frame)
    have "successively advances (stored_phase ?srv' c # phases dp c turns ?srv')"
      using wf' rest Cons.prems(2) same by (intro Cons.IH) auto
    then show ?thesis
      using same t by (simp add: advances_refl)
  qed
qed


lemma advances_rank: "advances (Some p) (Some q) \<Longrightarrow> phase_rank p \<le> phase_rank q"
  by auto

lemma follows_sorted:
  assumes "wf_store (callStates srv)"
      and "awaited expected (stored_phase srv c)"
      and "follows dp c expected turns srv"
  shows "sorted (map phase_rank (stored (stored_phase srv c # phases dp c turns srv))) \<and>
         (expected = None \<and> stored_phase srv c = None \<longrightarrow> stored (phases dp c turns srv) = [])"
  using assms
proof (induction turns arbitrary: srv expected)
  case Nil
  then show ?case by (cases "stored_phase srv c") simp_all
next
  case (Cons t turns)
  obtain rt req where t: "t = (rt, req)"
    by (cases t)
  let ?srv' = "snd (POST dp rt req srv)"
  let ?rest = "phases dp c turns ?srv'"
  have wf': "wf_store (callStates ?srv')"
    using Cons.prems(1) by (rule POST_wf)
  have phases: "phases dp c (t # turns) srv = stored_phase ?srv' c # ?rest"
    using t by simp
  show ?case
  proof (cases "callSid_of rt req = c")
    case True
    with Cons.prems(3) t obtain st where st: "expected = Some st" "step_of req = st"
      and rest: "follows dp c (next_step (body (fst (POST dp rt req srv)))) turns ?srv'"
      by (auto split: option.splits)
    have aw: "awaited (Some (step_of req)) (stored_phase srv (callSid_of rt req))"
      using Cons.prems(2) st True by simp
    note step = follows_step [OF Cons.prems(1) aw, of dp]
    have aw': "awaited (next_step (body (fst (POST dp rt req srv)))) (stored_phase ?srv' c)"
      using step True by simp
    have adv: "advances (stored_phase srv c) (stored_phase ?srv' c)"
      using step True by simp
    note IH = Cons.IH [OF wf' aw' rest]
    show ?thesis
    proof (cases "stored_phase srv c")
      case None
      then show ?thesis
        using IH st by (simp add: phases)
    next
      case (Some p)
      show ?thesis
      proof (cases "stored_phase ?srv' c")
        case None
        with aw' step have "next_step (body (fst (POST dp rt req srv))) = None"
          by (cases "next_step (body (fst (POST dp rt req srv)))") (auto split: if_splits)
        with IH None have "stored ?rest = []"
          by simp
        then show ?thesis
          using Some None st by (simp add: phases)
      next
        case (Some q)
        have "phase_rank p \<le> phase_rank q"
          using adv \<open>stored_phase srv c = Some p\<close> Some by (simp add: advances_rank)
        then show ?thesis
          using IH Some \<open>stored_phase srv c = Some p\<close> st by (auto simp add: phases)
      qed
    qed
  next
    case False
    with Cons.prems(3) t have rest: "follows dp c expected turns ?srv'"
      by simp
    have same: "stored_phase ?srv' c = stored_phase srv c"
      using Cons.prems(1) False by (rule stored_phase_frame)
    have aw': "awaited expected (stored_phase ?srv' c)"
      using Cons.prems(2) same by simp
    note IH = Cons.IH [OF wf' aw' rest]
    show ?thesis
      using IH same by (cases "stored_phase srv c") (simp_all add: phases)
  qed
qed

lemma advances_never_name:
  "successively advances (p # ps) \<Longrightarrow> p \<noteq> Some CollectingName \<Longrightarrow> Some CollectingName \<notin> set ps"
proof (induction ps arbitrary: p)
  case Nil
  then show ?case by simp
next
  case (Cons q ps)
  from Cons.prems have "advances p q" and "successively advances (q # ps)"
    by simp_all
  with Cons.prems(2) have "q \<noteq> Some CollectingName"
    by (cases p; cases q) auto
  with Cons.IH \<open>successively advances (q # ps)\<close> show ?case
    by simp
qed

lemma set_stored: "p \<in> set (stored ps) \<longleftrightarrow> Some p \<in> set ps"
  by (induction ps rule: stored.induct) auto

lemma silent_keeps_phase:
  assumes "wf_store (callStates srv)" and "speechResult_of req = None"
  shows "phase_of (snd (POST dp rt req srv)) c = phase_of srv c"
proof (cases "step_of req = ''init''")
  case True
  have id: "callId (fst (getCallState (callStates srv) (callSid_of rt req))) = callSid_of rt req"
    using assms(1) by (rule callId_loaded)
  show ?thesis
    by (simp add: POST_init [OF True refl id] phase_of_def getCallState_def split: option.splits)
next
  case False
  show ?thesis
    by (simp add: POST_silent [OF assms(2) False] phase_of_def phase_of_getCallState)
qed

lemma wf_store_empty: "wf_store (callStates empty_server)"
  by (simp add: wf_store_def empty_server_def)

lemmas sample_eval = sample_turn_def webhook_request_def POST_def Let_def
  step_of_def callSid_of_def speechResult_of_def ensureSpeechResult_def trim_def is_space_def
  empty_server_def getCallState_def freshCallState_def saveCallState_def clearCallState_def
  addAppointment_def truthy_def sample_runtime_def sample_parser_def stored_phase_def
  xmlResponse_def

lemma orderly_phases:
  "phases sample_parser ''CA1'' orderly_turns empty_server =
     [Some Greeting, Some Greeting, Some CollectingDatetime, Some CollectingDatetime,
      Some CollectingReason, Some CollectingReason, None]"
  by (simp add: orderly_turns_def sample_eval)

lemma orderly_follows: "follows sample_parser ''CA1'' (Some ''init'') orderly_turns empty_server"
  by (simp add: orderly_turns_def sample_eval)

text \<open>
  C2 does not hold as stated: the handler chooses its branch by the \<open>step\<close> parameter
  of the request and never reads the stored phase. A call that has given its name and
  then posts step \<open>reason\<close> goes from collecting-datetime to completed, passing over
  collecting-reason; when it posts step \<open>name\<close> once more it goes from completed back
  to collecting-datetime. The phase after greeting is collecting-datetime, so
  collecting-name is passed over as well.
\<close>

theorem phase_moves_back_counterexample:
  "phases sample_parser ''CA1'' replayed_turns empty_server =
     [Some Greeting, Some CollectingDatetime, Some Completed, Some CollectingDatetime]"
  by (simp add: replayed_turns_def sample_eval)

text \<open>
  C2, amended. Let every stored state sit under its own identifier. A request with an
  empty or missing utterance, whatever its step parameter, leaves the phase of every
  call unchanged. For every call identifier without a stored state and every sequence
  of requests (of this and of other calls) in which the requests of the call carry the
  step that the call's previous reply named, \<open>init\<close> first, and stop after a hang-up:
  from each request to the next the stored phase of the call stays, or moves from
  greeting to collecting-datetime, from there to collecting-reason, and from there to
  completed or to no state at all (the booking removes it); the phases stored over
  time never go back in the order greeting, collecting-name, collecting-datetime,
  collecting-reason, completed; and collecting-name is never stored.
\<close>

theorem phase_moves_forward:
  assumes "wf_store (callStates srv)"
  shows "(speechResult_of req = None \<longrightarrow>
            phase_of (snd (POST dp rt req srv)) c = phase_of srv c) \<and>
         (callStates srv c = None \<and> follows dp c (Some ''init'') turns srv \<longrightarrow>
            successively advances (None # phases dp c turns srv) \<and>
            sorted (map phase_rank (stored (phases dp c turns srv))) \<and>
            CollectingName \<notin> set (stored (phases dp c turns srv)))"

proof (intro conjI impI)
  assume "speechResult_of req = None"
  with assms show "phase_of (snd (POST dp rt req srv)) c = phase_of srv c"
    by (rule silent_keeps_phase)
next
  assume fresh: "callStates srv c = None \<and> follows dp c (Some ''init'') turns srv"
  then have none: "stored_phase srv c = None"
    by (simp add: stored_phase_def)
  then have aw: "awaited (Some ''init'') (stored_phase srv c)"
    by simp
  from fresh have fol: "follows dp c (Some ''init'') turns srv"
    by simp
  show adv: "successively advances (None # phases dp c turns srv)"
    using follows_advances [OF assms aw fol] none by simp
  show "sorted (map phase_rank (stored (phases dp c turns srv)))"
    using follows_sorted [OF assms aw fol] none by simp
  show "CollectingName \<notin> set (stored (phases dp c turns srv))"
    using advances_never_name [OF adv] by (simp add: set_stored)
qed


text \<open>C2, amended, on call \<open>CA1\<close> following its prompts, with a rejected date on the
  way, while call \<open>CA2\<close> goes on; and on a silent request for step \<open>datetime\<close>.\<close>

theorem phase_moves_forward_witness:
  "phases sample_parser ''CA1'' orderly_turns empty_server =
     [Some Greeting, Some Greeting, Some CollectingDatetime, Some CollectingDatetime,
      Some CollectingReason, Some CollectingReason, None] \<and>
   successively advances (None # phases sample_parser ''CA1'' orderly_turns empty_server) \<and>
   sorted (map phase_rank (stored (phases sample_parser ''CA1'' orderly_turns empty_server))) \<and>
   phase_of (snd (POST sample_parser sample_runtime
       (webhook_request ''https://clinic.example'' ''CA1'' None ''datetime'' None) empty_server))
     ''CA1'' = phase_of empty_server ''CA1''"
proof -
  have none: "callStates empty_server ''CA1'' = None"
    by (simp add: empty_server_def)
  have silent:
    "speechResult_of (webhook_request ''https://clinic.example'' ''CA1'' None ''datetime'' None) =
       None"
    by (simp add: speechResult_of_def webhook_request_def ensureSpeechResult_def)
  show ?thesis
    using phase_moves_forward [OF wf_store_empty, of
        "webhook_request ''https://clinic.example'' ''CA1'' None ''datetime'' None"
        sample_parser sample_runtime "''CA1''" orderly_turns]
      none silent orderly_follows
    by (simp add: orderly_phases)
qed

section \<open>Calls without a caller number\<close>

lemma turn_without_number:
  assumes wf: "wf_store (callStates srv)"
      and inv: "\<forall>st. callStates srv (callSid_of rt req) = Some st \<longrightarrow> contactNumber st = None"
      and no: "\<not> truthy (form_From req)"
  shows "(\<forall>st. callStates (snd (POST dp rt req srv)) (callSid_of rt req) = Some st \<longrightarrow>
            contactNumber st = None) \<and>
         (\<forall>a \<in> set (drop (length (appointments srv)) (appointments (snd (POST dp rt req srv)))).
            appt_contactNumber a = JString ''Unknown'')"
proof -
  let ?st = "fst (getCallState (callStates srv) (callSid_of rt req))"
  have id: "callId ?st = callSid_of rt req"
    using wf by (rule callId_loaded)
  have num: "contactNumber ?st = None"
    using inv by (simp add: getCallState_def freshCallState_def split: option.splits)
  show ?thesis
    using id num no
    by (simp add: POST_def Let_def saveCallState_def clearCallState_def addAppointment_def
        snd_getCallState_apply split: option.splits)
qed

lemma booked_without_number:
  assumes "wf_store (callStates srv)"
      and "\<forall>st. callStates srv c = Some st \<longrightarrow> contactNumber st = None"
      and "\<forall>(rt, req) \<in> set turns. callSid_of rt req = c \<longrightarrow> \<not> truthy (form_From req)"
  shows "\<forall>a \<in> set (booked_by dp c turns srv). appt_contactNumber a = JString ''Unknown''"
  using assms
proof (induction turns arbitrary: srv)
  case Nil
  then show ?case by simp
next
  case (Cons t turns)
  obtain rt req where t: "t = (rt, req)"
    by (cases t)
  let ?srv' = "snd (POST dp rt req srv)"
  have wf': "wf_store (callStates ?srv')"
    using Cons.prems(1) by (rule POST_wf)
  have rest: "\<forall>(rt, req) \<in> set turns. callSid_of rt req = c \<longrightarrow> \<not> truthy (form_From req)"
    using Cons.prems(3) by simp
  show ?case
  proof (cases "callSid_of rt req = c")
    case True
    have no: "\<not> truthy (form_From req)"
      using Cons.prems(3) t True by simp
    have inv: "\<forall>st. callStates srv (callSid_of rt req) = Some st \<longrightarrow> contactNumber st = None"
      using Cons.prems(2) True by simp
    note step = turn_without_number [OF Cons.prems(1) inv no, of dp]
    have inv': "\<forall>st. callStates ?srv' c = Some st \<longrightarrow> contactNumber st = None"
      using step True by simp
    show ?thesis
      using Cons.IH [OF wf' inv' rest] step t True by auto
  next
    case False
    have "callStates ?srv' c = callStates srv c"
      using Cons.prems(1) False by (intro POST_frame) auto
    then have inv': "\<forall>st. callStates ?srv' c = Some st \<longrightarrow> contactNumber st = None"
      using Cons.prems(2) by simp
    show ?thesis
      using Cons.IH [OF wf' inv' rest] t False by simp
  qed
qed

lemma orderly_booked:
  "booked_by sample_parser ''CA1'' orderly_turns empty_server =
     [\<lparr>appt_id = ''appt-0001'', appt_customerName = JString ''Jane Doe'',
       appt_appointmentDateTime = JString ''2030-06-11T15:00:00.000Z'',
       appt_reason = JString ''annual checkup'', appt_contactNumber = JString ''Unknown'',
       appt_callSummary =
         JString ''AI assistant booked for Jane Doe to discuss annual checkup.'',
       appt_createdAt = ''2030-06-04T10:00:00.000Z''\<rparr>]"
  by (simp add: orderly_turns_def sample_eval)

text \<open>
  C10. Let every stored state sit under its own identifier. For every call identifier
  without a stored state and every sequence of requests (of this and of other calls)
  in which no request of the call has a \<open>From\<close> field, every appointment that a
  request of the call adds to the store has the contact number \<open>Unknown\<close>.
\<close>

theorem webhook_unknown_contact_number:
  assumes "wf_store (callStates srv)"
      and "callStates srv c = None"
      and "\<forall>(rt, req) \<in> set turns. callSid_of rt req = c \<longrightarrow> form_From req = None"
  shows "\<forall>a \<in> set (booked_by dp c turns srv). appt_contactNumber a = JString ''Unknown''"
proof (rule booked_without_number [OF assms(1)])
  show "\<forall>st. callStates srv c = Some st \<longrightarrow> contactNumber st = None"
    using assms(2) by simp
  show "\<forall>(rt, req) \<in> set turns. callSid_of rt req = c \<longrightarrow> \<not> truthy (form_From req)"
    using assms(3) by (auto simp: truthy_def)
qed

text \<open>C10, on call \<open>CA1\<close> of the sample sequence: it books one appointment, with
  contact number \<open>Unknown\<close>.\<close>

theorem webhook_unknown_contact_number_witness:
  "length (booked_by sample_parser ''CA1'' orderly_turns empty_server) = 1 \<and>
   map appt_contactNumber (booked_by sample_parser ''CA1'' orderly_turns empty_server) =
     [JString ''Unknown'']"
proof -
  have none: "callStates empty_server ''CA1'' = None"
    by (simp add: empty_server_def)
  have nofrom:
    "\<forall>(rt, req) \<in> set orderly_turns. callSid_of rt req = ''CA1'' \<longrightarrow> form_From req = None"
    by (simp add: orderly_turns_def sample_turn_def webhook_request_def)
  have one: "length (booked_by sample_parser ''CA1'' orderly_turns empty_server) = 1"
    by (simp add: orderly_booked)
  then obtain a where a: "booked_by sample_parser ''CA1'' orderly_turns empty_server = [a]"
    by (cases "booked_by sample_parser ''CA1'' orderly_turns empty_server") auto
  have "appt_contactNumber a = JString ''Unknown''"
    using webhook_unknown_contact_number [OF wf_store_empty none nofrom, of sample_parser] a
    by simp
  then show ?thesis
    using a by simp
qed


section \<open>The two adapters side by side\<close>

lemma webhook_request_simps:
  "step_of (webhook_request orig c caller st u) = st"
  "callSid_of rt (webhook_request orig c caller st u) = c"
  "form_From (webhook_request orig c caller st u) = caller"
  "origin (webhook_request orig c caller st u) = orig"
  "speechResult_of (webhook_request orig c caller st None) = None"
  "speechResult_of (webhook_request orig c caller st (Some x)) =
     (if trim x = [] then None else Some (trim x))"
  by (simp_all add: webhook_request_def step_of_def callSid_of_def speechResult_of_def
      ensureSpeechResult_def)

lemma step_index_cases:
  assumes "0 \<le> step_index (Some st)"
  obtains "st = ''name''" | "st = ''datetime''" | "st = ''reason''"
  using assms by (auto split: if_splits)

lemma lockstep_turn:
  assumes iso: "\<forall>t. toISOString dp t \<noteq> []"
      and net: "postDelivered crt"
      and agree: "map_option (toISOString dp) (parseDateTime dp (clientClock crt) (trim u)) =
             map_option (toISOString dp) (parseDateTime dp (clock (server_runtime crt)) (trim u))"
      and rel: "in_step c ui reply srvW"
      and nxt: "next_step reply = Some st"
  shows "in_step c (fst (handleSubmitResponse dp crt (ui\<lparr>pendingResponse := u\<rparr>) srvS))
           (body (fst (POST dp (server_runtime crt) (webhook_request orig c caller st (Some u)) srvW)))
           (snd (POST dp (server_runtime crt) (webhook_request orig c caller st (Some u)) srvW)) \<and>
         ((appointments (snd (handleSubmitResponse dp crt (ui\<lparr>pendingResponse := u\<rparr>) srvS)) =
             appointments srvS \<and>
           appointments (snd (POST dp (server_runtime crt) (webhook_request orig c caller st (Some u)) srvW)) =
             appointments srvW) \<or>
          (\<exists>a b.
             appointments (snd (handleSubmitResponse dp crt (ui\<lparr>pendingResponse := u\<rparr>) srvS)) =
               appointments srvS @ [a] \<and>
             appointments (snd (POST dp (server_runtime crt) (webhook_request orig c caller st (Some u)) srvW)) =
               appointments srvW @ [b] \<and>
             visit a = visit b))"
proof -
  let ?req = "webhook_request orig c caller st (Some u)"
  let ?rt = "server_runtime crt"
  from rel nxt obtain s where s: "callStates srvW c = Some s" "callId s = c"
      and name: "1 \<le> currentStepIdx ui \<Longrightarrow> f_name (form ui) = customerName s \<and> truthy (customerName s)"
      and slot: "2 \<le> currentStepIdx ui \<Longrightarrow>
                   f_requestedSlot (form ui) = appointmentDateTime s \<and> truthy (appointmentDateTime s)"
    by (auto simp: in_step_def)
  from rel nxt have basics: "callActive ui" "\<not> isSubmitting ui" "\<not> callCompleted ui"
      "step_index (Some st) = currentStepIdx ui" "0 \<le> step_index (Some st)"
    by (auto simp: in_step_def)
  have loaded: "fst (getCallState (callStates srvW) (callSid_of ?rt ?req)) = s"
    using s(1) by (simp add: webhook_request_simps getCallState_def)
  have id: "callId s = callSid_of ?rt ?req"
    using s(2) by (simp add: webhook_request_simps)
  have kept: "snd (getCallState (callStates srvW) c) = callStates srvW"
    using s(1) by (rule stored_get)
  show ?thesis
  proof (cases "trim u = []")
    case True
    then have silent: "speechResult_of ?req = None"
      by (simp add: webhook_request_simps)
    have sim: "handleSubmitResponse dp crt (ui\<lparr>pendingResponse := u\<rparr>) srvS =
        (ui\<lparr>pendingResponse := u, ui_error := Some ''Please provide a response before continuing.''\<rparr>, srvS)"
      using basics True by (simp add: handleSubmitResponse_def)
    from basics(5) show ?thesis
    proof (cases rule: step_index_cases)
      case 1
      have st: "step_of ?req = ''name''"
        using 1 by (simp add: webhook_request_simps)
      have idx: "currentStepIdx ui = 0"
        using basics(4) 1 by simp
      show ?thesis
        using basics idx s name slot
        by (simp add: sim POST_name_silent [OF st silent] xmlResponse_def in_step_def
            webhook_request_simps kept)
    next
      case 2
      have st: "step_of ?req = ''datetime''"
        using 2 by (simp add: webhook_request_simps)
      have idx: "currentStepIdx ui = 1"
        using basics(4) 2 by simp
      show ?thesis
        using basics idx s name slot
        by (simp add: sim POST_datetime_silent [OF st silent] xmlResponse_def in_step_def
            webhook_request_simps kept)
    next
      case 3
      have st: "step_of ?req = ''reason''"
        using 3 by (simp add: webhook_request_simps)
      have idx: "currentStepIdx ui = 2"
        using basics(4) 3 by simp
      show ?thesis
        using basics idx s name slot
        by (simp add: sim POST_reason_silent [OF st silent] xmlResponse_def in_step_def
            webhook_request_simps kept)
    qed
  next
    case False
    then have speech: "speechResult_of ?req = Some (trim u)"
      by (simp add: webhook_request_simps)
    from basics(5) show ?thesis
    proof (cases rule: step_index_cases)
      case 1
      have st: "step_of ?req = ''name''"
        using 1 by (simp add: webhook_request_simps)
      have idx: "currentStepIdx ui = 0"
        using basics(4) 1 by simp
      show ?thesis
        using basics False idx s
        by (simp add: POST_name [OF st speech loaded id] xmlResponse_def in_step_def
            webhook_request_simps handleSubmitResponse_def Let_def activeStep_def agentSteps_def
            pushTranscript_def truthy_def)
    next
      case 2
      have st: "step_of ?req = ''datetime''"
        using 2 by (simp add: webhook_request_simps)
      have idx: "currentStepIdx ui = 1"
        using basics(4) 2 by simp
      show ?thesis
      proof (cases "parseDateTime dp (clock ?rt) (trim u)")
        case None
        then have client: "parseDateTime dp (clientClock crt) (trim u) = None"
          using agree by simp
        show ?thesis
          using basics False idx s name client
          by (simp add: POST_datetime_unparsed [OF st speech None] xmlResponse_def in_step_def
              webhook_request_simps kept handleSubmitResponse_def Let_def activeStep_def agentSteps_def
              pushTranscript_def)
      next
        case (Some parsed)
        then obtain shown where client: "parseDateTime dp (clientClock crt) (trim u) = Some shown"
            and same: "toISOString dp shown = toISOString dp parsed"
          using agree by (cases "parseDateTime dp (clientClock crt) (trim u)") auto
        show ?thesis
          using basics False idx s name client same iso
          by (simp add: POST_datetime_parsed [OF st speech Some loaded id] xmlResponse_def in_step_def
              webhook_request_simps handleSubmitResponse_def Let_def activeStep_def agentSteps_def
              pushTranscript_def truthy_def)
      qed
    next
      case 3
      have st: "step_of ?req = ''reason''"
        using 3 by (simp add: webhook_request_simps)
      have idx: "currentStepIdx ui = 2"
        using basics(4) 3 by simp
      from name slot idx obtain n d where nd: "customerName s = Some n" "n \<noteq> []"
          "appointmentDateTime s = Some d" "d \<noteq> []"
          and frm: "f_name (form ui) = Some n" "f_requestedSlot (form ui) = Some d"
        by (auto simp: truthy_iff)
      have nd': "customerName (fst (getCallState (callStates srvW) (callSid_of ?rt ?req))) = Some n"
          "n \<noteq> []"
          "appointmentDateTime (fst (getCallState (callStates srvW) (callSid_of ?rt ?req))) = Some d"
          "d \<noteq> []"
        using nd by (simp_all add: loaded)
      have id': "callId (fst (getCallState (callStates srvW) (callSid_of ?rt ?req))) = callSid_of ?rt ?req"
        using id by (simp add: loaded)
      show ?thesis
        using basics False idx frm net
        by (simp add: POST_reason_books [OF st speech refl id' nd'] xmlResponse_def in_step_def
            handleSubmitResponse_def Let_def activeStep_def agentSteps_def
            pushTranscript_def appointments_POST_def addAppointment_def visit_def
            summary_of_def coalesce_def)
    qed
  qed
qed

lemma lockstep_turns:
  assumes iso: "\<forall>t. toISOString dp t \<noteq> []"
      and net: "\<forall>(crt, u) \<in> set turns. postDelivered crt"
      and agree: "\<forall>(crt, u) \<in> set turns.
             map_option (toISOString dp) (parseDateTime dp (clientClock crt) (trim u)) =
             map_option (toISOString dp) (parseDateTime dp (clock (server_runtime crt)) (trim u))"
      and rel: "in_step c ui reply srvW"
      and apps: "appointments srvS = bS @ nS" "appointments srvW = bW @ nW"
        "map visit nS = map visit nW"
  shows "in_step c (fst (simulator_turns dp turns (ui, srvS)))
           (fst (webhook_turns dp orig c caller (map (\<lambda>(crt, u). (server_runtime crt, u)) turns)
                  (reply, srvW)))
           (snd (webhook_turns dp orig c caller (map (\<lambda>(crt, u). (server_runtime crt, u)) turns)
                  (reply, srvW))) \<and>
         (\<exists>nS' nW'.
            appointments (snd (simulator_turns dp turns (ui, srvS))) = bS @ nS' \<and>
            appointments
              (snd (webhook_turns dp orig c caller (map (\<lambda>(crt, u). (server_runtime crt, u)) turns)
                     (reply, srvW))) = bW @ nW' \<and>
            map visit nS' = map visit nW')"
  using net agree rel apps
proof (induction turns arbitrary: ui srvS reply srvW nS nW)
  case Nil
  then show ?case by simp
next
  case (Cons t turns)
  obtain crt u where t: "t = (crt, u)"
    by (cases t)
  have net': "\<forall>(crt, u) \<in> set turns. postDelivered crt" and delivered: "postDelivered crt"
    using Cons.prems(1) t by simp_all
  have agree': "\<forall>(crt, u) \<in> set turns.
             map_option (toISOString dp) (parseDateTime dp (clientClock crt) (trim u)) =
             map_option (toISOString dp) (parseDateTime dp (clock (server_runtime crt)) (trim u))"
      and agreed: "map_option (toISOString dp) (parseDateTime dp (clientClock crt) (trim u)) =
             map_option (toISOString dp) (parseDateTime dp (clock (server_runtime crt)) (trim u))"
    using Cons.prems(2) t by simp_all
  show ?case
  proof (cases "next_step reply")
    case None
    then have "callCompleted ui"
      using Cons.prems(3) by (simp add: in_step_def)
    then show ?thesis
      using None Cons.prems t by auto
  next
    case (Some st)
    then have live: "callActive ui" "\<not> callCompleted ui" "\<not> isSubmitting ui"
      using Cons.prems(3) by (auto simp: in_step_def)
    let ?S = "handleSubmitResponse dp crt (ui\<lparr>pendingResponse := u\<rparr>) srvS"
    let ?W = "POST dp (server_runtime crt) (webhook_request orig c caller st (Some u)) srvW"
    note turn = lockstep_turn [OF iso delivered agreed Cons.prems(3) Some, of srvS orig caller]
    from turn have rel': "in_step c (fst ?S) (body (fst ?W)) (snd ?W)"
      by simp
    from turn Cons.prems(4,5,6) obtain nS' nW' where apps':
        "appointments (snd ?S) = bS @ nS'" "appointments (snd ?W) = bW @ nW'"
        "map visit nS' = map visit nW'"
      by (elim conjE disjE exE) (simp, fastforce)
    have "simulator_turns dp (t # turns) (ui, srvS) = simulator_turns dp turns (fst ?S, snd ?S)"
      using live t by simp
    moreover have "webhook_turns dp orig c caller (map (\<lambda>(crt, u). (server_runtime crt, u)) (t # turns))
        (reply, srvW) =
      webhook_turns dp orig c caller (map (\<lambda>(crt, u). (server_runtime crt, u)) turns)
        (body (fst ?W), snd ?W)"
      using Some t by simp
    ultimately show ?thesis
      using Cons.IH [OF net' agree' rel' apps'] by simp
  qed
qed

lemma in_step_start:
  assumes "callStates srvW c = None" and "\<not> isSubmitting ui0"
  shows "in_step c (beginCall_timer (beginCall ui0))
           (body (fst (POST dp rt0 (webhook_request orig c caller ''init'' None) srvW)))
           (snd (POST dp rt0 (webhook_request orig c caller ''init'' None) srvW))"
proof -
  let ?req = "webhook_request orig c caller ''init'' None"
  have st: "step_of ?req = ''init''"
    by (simp add: webhook_request_simps)
  have id: "callId (fst (getCallState (callStates srvW) (callSid_of rt0 ?req))) = callSid_of rt0 ?req"
    using assms(1) by (simp add: webhook_request_simps getCallState_def freshCallState_def)
  show ?thesis
    using assms
    by (simp add: POST_init [OF st refl id] xmlResponse_def in_step_def webhook_request_simps
        beginCall_def beginCall_timer_def resetCall_def pushTranscript_def Let_def
        getCallState_def freshCallState_def)
qed

lemma name_prompt_webhook:
  assumes "step_of req = ''name''" and "speechResult_of req = Some sp"
  shows "body (fst (POST dp rt req srv)) =
           Gather (''Thanks '' @ sp @ ''. What day and time would you like to book the appointment for?'')
             ''datetime'' (origin req)"
  using assms speechResult_of_nonempty [OF assms(2)]
  by (simp add: POST_def Let_def truthy_def xmlResponse_def)

lemma init_prompt_webhook:
  assumes "step_of req = ''init''"
  shows "body (fst (POST dp rt req srv)) =
           Gather ''Hello! You have reached the Horizon Clinic virtual scheduling assistant. May I have your full name?''
             ''name'' (origin req)"
  using assms by (simp add: POST_def Let_def xmlResponse_def)

lemma webhook_dialogue_name:
  assumes "trim u \<noteq> []"
  shows "fst (webhook_dialogue dp orig c caller rt0 [(rt, u)] srv) =
           Gather (''Thanks '' @ trim u @
                   ''. What day and time would you like to book the appointment for?'')
             ''datetime'' orig"
proof -
  have init: "step_of (webhook_request orig c caller ''init'' None) = ''init''"
    by (simp add: webhook_request_simps)
  have name: "step_of (webhook_request orig c caller ''name'' (Some u)) = ''name''"
    by (simp add: webhook_request_simps)
  have speech: "speechResult_of (webhook_request orig c caller ''name'' (Some u)) = Some (trim u)"
    using assms by (simp add: webhook_request_simps)
  show ?thesis
    by (simp add: webhook_dialogue_def init_prompt_webhook [OF init]
        name_prompt_webhook [OF name speech] webhook_request_simps)
qed

lemma simulator_turns_Nil: "simulator_turns dp [] p = p"
  by (cases p) simp

lemma simulator_dialogue_name:
  assumes "\<not> isSubmitting ui0" and "trim u \<noteq> []"
  shows "transcript (fst (simulator_dialogue dp [(crt, u)] ui0 srv)) =
           [(Agent, snd (agentSteps ! 0)), (Caller, trim u),
            (Agent, ''Perfect, thank you. What day and time works best for your visit?'')]"
proof -
  let ?begun = "beginCall_timer (beginCall ui0)"
  let ?ui = "?begun\<lparr>pendingResponse := u\<rparr>"
  have begun: "callActive ?begun" "\<not> callCompleted ?begun" "\<not> isSubmitting ?begun"
    using assms(1)
    by (simp_all add: beginCall_def beginCall_timer_def resetCall_def pushTranscript_def Let_def)
  have ui: "callActive ?ui" "\<not> isSubmitting ?ui" "currentStepIdx ?ui = 0"
      "trim (pendingResponse ?ui) = trim u"
    using assms(1)
    by (simp_all add: beginCall_def beginCall_timer_def resetCall_def pushTranscript_def Let_def)
  have greeting: "transcript ?ui = [(Agent, snd (agentSteps ! 0))]"
    by (simp add: beginCall_def beginCall_timer_def resetCall_def pushTranscript_def Let_def)
  show ?thesis
    using begun
    by (simp add: simulator_dialogue_def simulator_turns_Nil
        name_prompt_simulator [OF ui assms(2)] greeting)
qed

lemma early_submission_swallowed:
  assumes "\<not> isSubmitting ui0" and "trim u \<noteq> []"
  shows "handleSubmitResponse dp crt ((beginCall ui0)\<lparr>pendingResponse := u\<rparr>) srv =
           ((beginCall ui0)\<lparr>transcript := [(Caller, trim u)]\<rparr>, srv) \<and>
         currentStepIdx (beginCall_timer
           (fst (handleSubmitResponse dp crt ((beginCall ui0)\<lparr>pendingResponse := u\<rparr>) srv))) = 0 \<and>
         f_name (form (beginCall_timer
           (fst (handleSubmitResponse dp crt ((beginCall ui0)\<lparr>pendingResponse := u\<rparr>) srv)))) = None"
  using assms
  by (simp add: handleSubmitResponse_def beginCall_def beginCall_timer_def resetCall_def
      pushTranscript_def activeStep_def Let_def)

lemmas dialogue_eval = simulator_dialogue_def webhook_dialogue_def sample_utterances_def
  sample_client_runtime_def initial_CallAgent_def beginCall_def beginCall_timer_def
  resetCall_def pushTranscript_def handleSubmitResponse_def activeStep_def agentSteps_def
  appointments_POST_def visit_def summary_of_def coalesce_def

lemma clocks_apart_bookings_differ:
  "map visit (appointments (snd (simulator_dialogue calendar_parser
      [(late_client_runtime, ''Jane Doe''), (late_client_runtime, ''tomorrow''),
       (late_client_runtime, ''annual checkup'')]
      (initial_CallAgent []) empty_server))) =
     [(JString ''Jane Doe'', JString ''2030-06-06T00:00:00.000Z'', JString ''annual checkup'')] \<and>
   map visit (appointments (snd (webhook_dialogue calendar_parser ''https://clinic.example''
      ''CA1'' None sample_runtime
      [(sample_runtime, ''Jane Doe''), (sample_runtime, ''tomorrow''),
       (sample_runtime, ''annual checkup'')]
      empty_server))) =
     [(JString ''Jane Doe'', JString ''2030-06-05T00:00:00.000Z'', JString ''annual checkup'')]"
  by (simp add: dialogue_eval sample_eval calendar_parser_def late_client_runtime_def)

text \<open>
  C8 does not hold as stated: the adapters do not answer alike. After the name
  ``Jane Doe'' the webhook's prompt for the date is built from the name, while the
  simulator pushes a fixed prompt in which the name does not occur.
\<close>

theorem simulator_prompt_omits_name_counterexample:
  "fst (webhook_dialogue sample_parser ''https://clinic.example'' ''CA1'' None sample_runtime
          [(sample_runtime, ''Jane Doe'')] empty_server) =
     Gather ''Thanks Jane Doe. What day and time would you like to book the appointment for?''
       ''datetime'' ''https://clinic.example'' \<and>
   transcript (fst (simulator_dialogue sample_parser [(sample_client_runtime, ''Jane Doe'')]
          (initial_CallAgent []) empty_server)) =
     [(Agent,
       ''Hello! This is Aurora, the autonomous scheduling assistant for Horizon Clinic. Thanks for calling. Who do I have the pleasure of speaking with today?''),
      (Caller, ''Jane Doe''),
      (Agent, ''Perfect, thank you. What day and time works best for your visit?'')]"
  by (simp add: dialogue_eval sample_eval)

text \<open>
  C8, amended. Take a call the webhook has no state for, a simulator that is not in
  the middle of a submission and whose caller answers only after the greeting has been
  shown (the start timer has fired), a parser whose dates never print as the empty
  string and which, for each utterance, asked at the browser's current time and asked
  at the server's, fails both times or gives instants with the same ISO form, and a
  network that delivers the simulator's bookings. For every sequence of caller
  utterances, run through the simulator and posted by the telephony provider to the
  webhook, both adapters end at the same step of the dialogue (name, date, reason or
  done), the simulator has completed exactly when the webhook has hung up, and the
  bookings the two have added agree in customer name, appointment time and reason.
  The prompts are not the same: after a non-empty name utterance the webhook's prompt
  for the date holds the captured name, and the simulator's is a fixed text.
\<close>

theorem adapters_in_step:
  assumes "callStates srvW c = None"
      and "\<not> isSubmitting ui0"
      and "\<forall>t. toISOString dp t \<noteq> []"
      and "\<forall>(crt, u) \<in> set turns. postDelivered crt"
      and "\<forall>(crt, u) \<in> set turns.
             map_option (toISOString dp) (parseDateTime dp (clientClock crt) (trim u)) =
             map_option (toISOString dp) (parseDateTime dp (clock (server_runtime crt)) (trim u))"
      and "trim name \<noteq> []"
  shows "step_index
           (next_step (fst (webhook_dialogue dp orig c caller rt0
              (map (\<lambda>(crt, u). (server_runtime crt, u)) turns) srvW))) =
         currentStepIdx (fst (simulator_dialogue dp turns ui0 srvS)) \<and>
         (callCompleted (fst (simulator_dialogue dp turns ui0 srvS)) \<longleftrightarrow>
          next_step (fst (webhook_dialogue dp orig c caller rt0
              (map (\<lambda>(crt, u). (server_runtime crt, u)) turns) srvW)) = None) \<and>
         map visit (drop (length (appointments srvS))
              (appointments (snd (simulator_dialogue dp turns ui0 srvS)))) =
         map visit (drop (length (appointments srvW))
              (appointments (snd (webhook_dialogue dp orig c caller rt0
                 (map (\<lambda>(crt, u). (server_runtime crt, u)) turns) srvW)))) \<and>
         fst (webhook_dialogue dp orig c caller rt0 [(rt, name)] srvW) =
           Gather (''Thanks '' @ trim name @
                   ''. What day and time would you like to book the appointment for?'')
             ''datetime'' orig \<and>
         transcript (fst (simulator_dialogue dp [(crt, name)] ui0 srvS)) =
           [(Agent, snd (agentSteps ! 0)), (Caller, trim name),
            (Agent, ''Perfect, thank you. What day and time works best for your visit?'')]"
proof -
  let ?req0 = "webhook_request orig c caller ''init'' None"
  let ?W0 = "POST dp rt0 ?req0 srvW"
  have start: "in_step c (beginCall_timer (beginCall ui0)) (body (fst ?W0)) (snd ?W0)"
    using assms(1,2) by (rule in_step_start)
  have appsW: "appointments (snd ?W0) = appointments srvW @ []"
    by (simp add: POST_def Let_def webhook_request_simps)
  have appsS: "appointments srvS = appointments srvS @ []"
    by simp
  note run = lockstep_turns [OF assms(3,4,5) start appsS appsW, of orig caller]
  have "step_index
           (next_step (fst (webhook_dialogue dp orig c caller rt0
              (map (\<lambda>(crt, u). (server_runtime crt, u)) turns) srvW))) =
         currentStepIdx (fst (simulator_dialogue dp turns ui0 srvS)) \<and>
         (callCompleted (fst (simulator_dialogue dp turns ui0 srvS)) \<longleftrightarrow>
          next_step (fst (webhook_dialogue dp orig c caller rt0
              (map (\<lambda>(crt, u). (server_runtime crt, u)) turns) srvW)) = None) \<and>
         map visit (drop (length (appointments srvS))
              (appointments (snd (simulator_dialogue dp turns ui0 srvS)))) =
         map visit (drop (length (appointments srvW))
              (appointments (snd (webhook_dialogue dp orig c caller rt0
                 (map (\<lambda>(crt, u). (server_runtime crt, u)) turns) srvW))))"
    using run by (auto simp: simulator_dialogue_def webhook_dialogue_def in_step_def)
  then show ?thesis
    using webhook_dialogue_name [OF assms(6), of dp orig c caller rt0 rt srvW]
      simulator_dialogue_name [OF assms(2,6), of dp crt srvS]
    by simp
qed

text \<open>C8, amended, on the sample call: name, a silence, a phrase that is no date, the
  date, the reason. Both adapters end done, with the same visit booked.\<close>

theorem adapters_in_step_witness:
  "currentStepIdx (fst (simulator_dialogue sample_parser sample_utterances
      (initial_CallAgent []) empty_server)) = 3 \<and>
   next_step (fst (webhook_dialogue sample_parser ''https://clinic.example'' ''CA1''
      (Some ''+15550100'') sample_runtime
      (map (\<lambda>(crt, u). (server_runtime crt, u)) sample_utterances) empty_server)) = None \<and>
   map visit (appointments (snd (simulator_dialogue sample_parser sample_utterances
      (initial_CallAgent []) empty_server))) =
     [(JString ''Jane Doe'', JString ''2030-06-11T15:00:00.000Z'', JString ''annual checkup'')] \<and>
   map visit (appointments (snd (webhook_dialogue sample_parser ''https://clinic.example'' ''CA1''
      (Some ''+15550100'') sample_runtime
      (map (\<lambda>(crt, u). (server_runtime crt, u)) sample_utterances) empty_server))) =
     [(JString ''Jane Doe'', JString ''2030-06-11T15:00:00.000Z'', JString ''annual checkup'')]"
proof -
  have fresh: "callStates empty_server ''CA1'' = None"
    by (simp add: empty_server_def)
  have idle: "\<not> isSubmitting (initial_CallAgent [])"
    by (simp add: initial_CallAgent_def)
  have iso: "\<forall>t. toISOString sample_parser t \<noteq> []"
    by (simp add: sample_parser_def)
  have net: "\<forall>(crt, u) \<in> set sample_utterances. postDelivered crt"
    by (simp add: sample_utterances_def sample_client_runtime_def)
  have agree: "\<forall>(crt, u) \<in> set sample_utterances.
      map_option (toISOString sample_parser)
        (parseDateTime sample_parser (clientClock crt) (trim u)) =
      map_option (toISOString sample_parser)
        (parseDateTime sample_parser (clock (server_runtime crt)) (trim u))"
    by (simp add: sample_utterances_def sample_parser_def)
  have name: "trim ''Jane Doe'' \<noteq> []"
    by (simp add: trim_def is_space_def)
  have sim: "currentStepIdx (fst (simulator_dialogue sample_parser sample_utterances
      (initial_CallAgent []) empty_server)) = 3"
    by (simp add: dialogue_eval sample_eval)
  have booked: "map visit (appointments (snd (simulator_dialogue sample_parser sample_utterances
      (initial_CallAgent []) empty_server))) =
     [(JString ''Jane Doe'', JString ''2030-06-11T15:00:00.000Z'', JString ''annual checkup'')]"
    by (simp add: dialogue_eval sample_eval)
  have none: "appointments empty_server = []"
    by (simp add: empty_server_def)
  show ?thesis
    using adapters_in_step [OF fresh idle iso net agree name, of "''https://clinic.example''"
        "Some ''+15550100''" sample_runtime empty_server sample_runtime sample_client_runtime]
      sim booked
    by (auto simp add: none split: option.splits if_splits)
qed


end
